theory Spec2Isabelle
  imports Complex_Main
begin

section \<open>Data model of \<open>defragment_sharded_collection.py\<close>\<close>

text \<open>
  Shard-key values (the \<open>min\<close> and \<open>max\<close> documents of a chunk) are only ever compared
  for equality by the script, so they are a type parameter \<open>'k\<close>. A chunk version
  (\<open>lastmod\<close>) is a BSON timestamp: a pair \<open>(time, inc)\<close> ordered lexicographically, where
  \<open>time\<close> carries the major and \<open>inc\<close> the minor version.

  Sizes in megabytes are Python numbers: \<open>int\<close> from the command line and the settings
  document, \<open>float\<close> for the default estimate \<open>64 * 0.40\<close> and for every product with
  \<open>0.90\<close>, \<open>0.75\<close>, \<open>1.10\<close>. Every such number is a real, and Python compares an \<open>int\<close>
  and a \<open>float\<close> by their exact values, so sizes are reals and \<open><\<close>, \<open>\<le>\<close>, \<open>>\<close> are those
  of the reals. Python's arithmetic is not that of the reals: a float sum or product is
  rounded to a double (the sum of eighteen estimates \<open>25.6\<close> is above \<open>512 * 0.90\<close> in
  Python and equal to it in the reals). The three operations the worker uses are
  therefore parameters of the model.
\<close>

type_synonym shard_id = string

datatype timestamp = Timestamp (ts_time: nat) (ts_inc: nat)

fun ts_greater :: "timestamp \<Rightarrow> timestamp \<Rightarrow> bool" where
  "ts_greater (Timestamp t1 i1) (Timestamp t2 i2) = (t1 > t2 \<or> (t1 = t2 \<and> i1 > i2))"

record 'k chunk =
  chunk_min :: 'k
  chunk_max :: 'k
  chunk_shard :: shard_id
  chunk_lastmod :: timestamp

record 'k shard_entry =
  chunks :: "'k chunk list"
  num_merges_performed :: nat

datatype pyerror =
    TypeError
  | KeyError
  | IndexError
  | NotMongosException
  | KeyboardInterrupt
  | Exception string
  | OperationFailure nat
  | OtherError string

datatype gate = sem_at_collection_version | sem_at_less_than_collection_version

text \<open>
  What a shard worker does that is visible outside it: the commands it sends to the
  cluster, the semaphores it takes and gives back, and the lines it prints.
\<close>

datatype 'k event =
    PrintStart shard_id timestamp bool
  | DataSize 'k 'k
  | Acquire gate
  | Release gate
  | MergeChunks 'k 'k
  | PrintMerging nat shard_id 'k 'k
  | PrintWarning 'k 'k

text \<open>The command line, as far as the script reads it.\<close>

record args =
  ns :: string
  dryrun :: bool
  phase_1_estimated_chunk_size_mb :: real

text \<open>
  The cluster is an external collaborator. It is a state \<open>'s\<close> of which the worker knows
  nothing, with one response function per command: \<open>dataSize\<close> answers with the \<open>size\<close>
  field of its reply or raises, \<open>mergeChunks\<close> succeeds (\<open>None\<close>) or raises. Any sequence
  of replies, including those caused by other workers, is some choice of \<open>'s\<close> and of the
  two functions.
\<close>

text \<open>
  \<open>py_add a b\<close> is Python's \<open>a + b\<close>, \<open>py_mul a b\<close> is Python's \<open>a * b\<close> and \<open>py_float a\<close>
  is Python's \<open>float(a)\<close>. A factor written \<open>0.90\<close> in the script is the double nearest to
  it, so \<open>py_mul a 0.90\<close> stands for what Python computes for \<open>a * 0.90\<close>. Nothing is
  assumed of the three operations: what is proved for every environment holds for
  Python's.
\<close>

record ('k, 's) env =
  args :: args
  target_chunk_size :: real
  dataSize :: "'s \<Rightarrow> 'k \<Rightarrow> 'k \<Rightarrow> (pyerror + real) \<times> 's"
  mergeChunks :: "'s \<Rightarrow> 'k \<Rightarrow> 'k \<Rightarrow> pyerror option \<times> 's"
  py_add :: "real \<Rightarrow> real \<Rightarrow> real"
  py_mul :: "real \<Rightarrow> real \<Rightarrow> real"
  py_float :: "real \<Rightarrow> real"

text \<open>The local variables of \<open>merge_chunks_on_shard\<close>, the shard's counter, the events so far
  and the cluster state.\<close>

record ('k, 's) wstate =
  consecutive_chunks :: "'k chunk list"
  estimated_size_of_consecutive_chunks :: real
  shard_is_at_collection_version :: bool
  num_lock_busy_errors_encountered :: nat
  merges_performed :: nat
  trace :: "'k event list"
  cluster_state :: 's

section \<open>The shard worker \<open>merge_chunks_on_shard\<close>\<close>

text \<open>
  \<open>main\<close> starts one worker for each shard and waits for all of them. The workers share
  the two semaphores and the cluster and nothing else, so one worker is modelled on its
  own, as a function of the replies it gets. An \<open>Acquire\<close> event is the point at which
  the worker holds the semaphore; how long it waited for it is not part of the model.
\<close>

text \<open>Lines 184 to 187: the bounds of \<open>mergeCommand\<close>. The candidate is never empty where
  the script builds the command (line 160 has handled the empty candidate).\<close>

definition mergeCommand_bounds :: "'k chunk list \<Rightarrow> 'k \<times> 'k" where
  "mergeCommand_bounds cs = (chunk_min (hd cs), chunk_max (last cs))"

text \<open>Lines 192 to 206: the size of the candidate, simulated in a dry run and asked of the
  cluster (rounded up to whole megabytes) otherwise. Dividing a double by \<open>1024.0 * 1024.0\<close>,
  a power of two, is exact.\<close>

definition actual_size_of_consecutive_chunks ::
  "('k, 's) env \<Rightarrow> ('k, 's) wstate \<Rightarrow> (pyerror + real) \<times> ('k, 's) wstate" where
  "actual_size_of_consecutive_chunks E st =
     (if dryrun (args E) then (Inr (estimated_size_of_consecutive_chunks st), st)
      else
        (let (lo, hi) = mergeCommand_bounds (consecutive_chunks st);
             (resp, s') = dataSize E (cluster_state st) lo hi;
             st' = st\<lparr>trace := trace st @ [DataSize lo hi], cluster_state := s'\<rparr>
         in case resp of
              Inl e \<Rightarrow> (Inl e, st')
            | Inr size_bytes \<Rightarrow>
                (Inr (of_int \<lceil>py_float E size_bytes / (1024 * 1024)\<rceil>), st')))"

text \<open>Lines 108, 109 and 135 to 137: the number of permits of the two semaphores.\<close>

definition max_merges_on_shards_at_less_than_collection_version :: nat where
  "max_merges_on_shards_at_less_than_collection_version = 1"

definition max_merges_on_shards_at_collection_version :: nat where
  "max_merges_on_shards_at_collection_version = 8"

fun permits :: "gate \<Rightarrow> nat" where
  "permits sem_at_collection_version = max_merges_on_shards_at_collection_version"
| "permits sem_at_less_than_collection_version =
     max_merges_on_shards_at_less_than_collection_version"

text \<open>Lines 222 and 223: the semaphore the merge is run under.\<close>

definition gate_for :: "bool \<Rightarrow> gate" where
  "gate_for at_version =
     (if at_version then sem_at_collection_version else sem_at_less_than_collection_version)"

text \<open>Lines 222 to 239: the merge itself, inside the semaphore. Leaving the
  \<open>async with\<close> block releases the semaphore, also when the exception is raised again.\<close>

definition perform_merge ::
  "('k, 's) env \<Rightarrow> shard_id \<Rightarrow> ('k, 's) wstate \<Rightarrow> pyerror option \<times> ('k, 's) wstate" where
  "perform_merge E shard st =
     (let (lo, hi) = mergeCommand_bounds (consecutive_chunks st);
          g = gate_for (shard_is_at_collection_version st);
          st1 = st\<lparr>trace := trace st @ [Acquire g]\<rparr>
      in if dryrun (args E) then
           (None, st1\<lparr>trace := trace st1 @
                      [PrintMerging (length (consecutive_chunks st)) shard lo hi, Release g]\<rparr>)
         else
           (let (resp, s') = mergeChunks E (cluster_state st1) lo hi;
                st2 = st1\<lparr>trace := trace st1 @ [MergeChunks lo hi], cluster_state := s'\<rparr>
            in case resp of
                 None \<Rightarrow> (None, st2\<lparr>trace := trace st2 @ [Release g]\<rparr>)
               | Some (OperationFailure code) \<Rightarrow>
                   (if code = 46 then
                      (let n = num_lock_busy_errors_encountered st2 + 1;
                           st3 = st2\<lparr>num_lock_busy_errors_encountered := n\<rparr>;
                           st4 = (if n = 1
                                  then st3\<lparr>trace := trace st3 @ [PrintWarning lo hi]\<rparr>
                                  else st3)
                       in (None, st4\<lparr>trace := trace st4 @ [Release g]\<rparr>))
                    else (Some (OperationFailure code),
                          st2\<lparr>trace := trace st2 @ [Release g]\<rparr>))
               | Some e \<Rightarrow> (Some e, st2\<lparr>trace := trace st2 @ [Release g]\<rparr>)))"

text \<open>Lines 241 to 249: what follows the semaphore block.\<close>

definition after_merge ::
  "('k, 's) env \<Rightarrow> bool \<Rightarrow> 'k chunk \<Rightarrow> ('k, 's) wstate \<Rightarrow> ('k, 's) wstate" where
  "after_merge E merge_consecutive_chunks_without_size_check c st =
     (let st1 = (if merge_consecutive_chunks_without_size_check
                 then st\<lparr>consecutive_chunks := [c],
                         estimated_size_of_consecutive_chunks :=
                           phase_1_estimated_chunk_size_mb (args E)\<rparr>
                 else st\<lparr>consecutive_chunks := [],
                         estimated_size_of_consecutive_chunks := 0\<rparr>)
      in st1\<lparr>merges_performed := merges_performed st1 + 1,
             shard_is_at_collection_version := True\<rparr>)"

text \<open>Lines 184 to 249: everything after the 90 percent test of one iteration.\<close>

definition evaluate_candidate ::
  "('k, 's) env \<Rightarrow> shard_id \<Rightarrow> bool \<Rightarrow> 'k chunk \<Rightarrow> ('k, 's) wstate
     \<Rightarrow> pyerror option \<times> ('k, 's) wstate" where
  "evaluate_candidate E shard merge_consecutive_chunks_without_size_check c st =
     (case actual_size_of_consecutive_chunks E st of
        (Inl e, st') \<Rightarrow> (Some e, st')
      | (Inr actual, st') \<Rightarrow>
          if \<not> merge_consecutive_chunks_without_size_check
             \<and> actual < py_mul E (target_chunk_size E) 0.75
          then (None, st'\<lparr>estimated_size_of_consecutive_chunks := actual\<rparr>)
          else
            (case perform_merge E shard st' of
               (Some e, st'') \<Rightarrow> (Some e, st'')
             | (None, st'') \<Rightarrow>
                 (None, after_merge E merge_consecutive_chunks_without_size_check c st'')))"

text \<open>Lines 160 to 249: one iteration of \<open>for c in shard_chunks\<close>. The result is the
  exception that left the loop, if any, and the state.\<close>

definition loop_body ::
  "('k, 's) env \<Rightarrow> shard_id \<Rightarrow> ('k, 's) wstate \<Rightarrow> 'k chunk
     \<Rightarrow> pyerror option \<times> ('k, 's) wstate" where
  "loop_body E shard st c =
     (if length (consecutive_chunks st) = 0 then
        (None, st\<lparr>consecutive_chunks := [c],
                  estimated_size_of_consecutive_chunks := phase_1_estimated_chunk_size_mb (args E)\<rparr>)
      else if chunk_max (last (consecutive_chunks st)) = chunk_min c then
        (let st1 = st\<lparr>consecutive_chunks := consecutive_chunks st @ [c],
                      estimated_size_of_consecutive_chunks :=
                        py_add E (estimated_size_of_consecutive_chunks st)
                          (phase_1_estimated_chunk_size_mb (args E))\<rparr>
         in if estimated_size_of_consecutive_chunks st1
                 \<le> py_mul E (target_chunk_size E) 0.90
            then (None, st1)
            else evaluate_candidate E shard False c st1)
      else if length (consecutive_chunks st) = 1 then
        (None, st\<lparr>consecutive_chunks := [c],
                  estimated_size_of_consecutive_chunks := phase_1_estimated_chunk_size_mb (args E)\<rparr>)
      else evaluate_candidate E shard True c st)"

fun for_loop ::
  "('k, 's) env \<Rightarrow> shard_id \<Rightarrow> ('k, 's) wstate \<Rightarrow> 'k chunk list
     \<Rightarrow> pyerror option \<times> ('k, 's) wstate" where
  "for_loop E shard st [] = (None, st)"
| "for_loop E shard st (c # cs) =
     (case loop_body E shard st c of
        (Some e, st') \<Rightarrow> (Some e, st')
      | (None, st') \<Rightarrow> for_loop E shard st' cs)"

text \<open>Line 145: Python's \<open>max\<close> with a key returns the first of the greatest elements.\<close>

fun max_by_lastmod :: "'k chunk \<Rightarrow> 'k chunk list \<Rightarrow> 'k chunk" where
  "max_by_lastmod b [] = b"
| "max_by_lastmod b (c # cs) =
     max_by_lastmod (if ts_greater (chunk_lastmod c) (chunk_lastmod b) then c else b) cs"

text \<open>Lines 145 to 157: the state in which the loop starts. The shard has at least two
  chunks here, so \<open>max\<close> has something to choose from.\<close>

definition worker_start ::
  "shard_id \<Rightarrow> 'k shard_entry \<Rightarrow> timestamp \<Rightarrow> 's \<Rightarrow> ('k, 's) wstate" where
  "worker_start shard shard_entry collection_version s0 =
     (let shard_chunks = chunks shard_entry;
          chunk_at_shard_version = max_by_lastmod (hd shard_chunks) (tl shard_chunks);
          shard_version = chunk_lastmod chunk_at_shard_version;
          at_version = (ts_time shard_version = ts_time collection_version)
      in \<lparr>consecutive_chunks = [],
          estimated_size_of_consecutive_chunks = 0,
          shard_is_at_collection_version = at_version,
          num_lock_busy_errors_encountered = 0,
          merges_performed = num_merges_performed shard_entry,
          trace = [PrintStart shard shard_version at_version],
          cluster_state = s0\<rparr>)"

text \<open>What a worker leaves behind: the exception it ended with (\<open>None\<close> when it returned),
  the shard's counter, its events and the cluster state.\<close>

record ('k, 's) worker_result =
  raised :: "pyerror option"
  num_merges_after :: nat
  events :: "'k event list"
  cluster_after :: 's

text \<open>Lines 139 to 249.\<close>

definition merge_chunks_on_shard ::
  "('k, 's) env \<Rightarrow> (shard_id \<times> 'k shard_entry) list \<Rightarrow> shard_id \<Rightarrow> timestamp \<Rightarrow> 's
     \<Rightarrow> ('k, 's) worker_result" where
  "merge_chunks_on_shard E shard_to_chunks shard collection_version s0 =
     (case map_of shard_to_chunks shard of
        None \<Rightarrow> \<lparr>raised = Some KeyError, num_merges_after = 0, events = [],
                 cluster_after = s0\<rparr>
      | Some shard_entry \<Rightarrow>
          (let shard_chunks = chunks shard_entry in
           if length shard_chunks < 2 then
             \<lparr>raised = None, num_merges_after = num_merges_performed shard_entry,
              events = [], cluster_after = s0\<rparr>
           else
             (let (r, st) = for_loop E shard
                              (worker_start shard shard_entry collection_version s0)
                              shard_chunks
              in \<lparr>raised = r, num_merges_after = merges_performed st,
                  events = trace st, cluster_after = cluster_state st\<rparr>)))"

section \<open>The read-only part of \<open>main\<close>\<close>

text \<open>
  What the reads of lines 20 to 73 return. The config database is read through
  \<open>find_one\<close>, \<open>count_documents\<close> and \<open>find\<close>; a settings document that does not exist is
  \<open>None\<close>. The reply of \<open>chunks.find\<close> is the chunk documents of the namespace in the order
  the cluster sorted them. \<open>checkIsMongos\<close> and \<open>yes_no\<close> come from the module \<open>common\<close>,
  which is not part of the sources at hand: whether the first raises
  \<open>NotMongosException\<close> and what the second answers are fields of the record.
\<close>

record ('p, 'k) cluster_reads =
  collections_find_one :: "string \<Rightarrow> 'p option"
  chunks_count_documents :: "string \<Rightarrow> nat"
  is_mongos :: bool
  yes_no :: bool
  settings_balancer_mode :: "string option"
  settings_autosplit_enabled :: "bool option"
  settings_chunksize_value :: "real option"
  chunks_find :: "string \<Rightarrow> 'k chunk list"

datatype main_event =
    FindOneCollections string
  | CountChunks string
  | CheckIsMongos
  | PrintNotMongos
  | Prompt
  | FindOneSettings string
  | FindChunks string

text \<open>Lines 20 to 63. The result is the exception raised, or the shard key pattern, the
  chunk count and the target chunk size, together with the reads and prompts made.\<close>

definition main_sanity_checks ::
  "args \<Rightarrow> ('p, 'k) cluster_reads \<Rightarrow> (pyerror + 'p \<times> nat \<times> real) \<times> main_event list" where
  "main_sanity_checks a cluster =
     (if CHR ''.'' \<notin> set (ns a) then (Inl IndexError, [])
      else
        case collections_find_one cluster (ns a) of
          None \<Rightarrow> (Inl TypeError, [FindOneCollections (ns a)])
        | Some shardKeyPattern \<Rightarrow>
            (let num_chunks = chunks_count_documents cluster (ns a);
                 t1 = [FindOneCollections (ns a), CountChunks (ns a), CheckIsMongos]
             in if \<not> dryrun a \<and> \<not> is_mongos cluster then (Inl NotMongosException, t1)
                else if \<not> dryrun a \<and> \<not> yes_no cluster
                then (Inl KeyboardInterrupt, t1 @ [Prompt])
                else
                  (let t2 = t1 @ (if dryrun a
                                  then (if is_mongos cluster then [] else [PrintNotMongos])
                                  else [Prompt])
                              @ [FindOneSettings ''balancer'']
                   in if \<not> dryrun a \<and> settings_balancer_mode cluster \<noteq> Some ''off''
                      then (Inl (Exception ''The balancer must be stopped''), t2)
                      else
                        (let t3 = t2 @ [FindOneSettings ''autosplit'']
                         in if \<not> dryrun a \<and> settings_autosplit_enabled cluster \<noteq> Some False
                            then (Inl (Exception ''The auto-splitter must be disabled''), t3)
                            else
                              (let t4 = t3 @ [FindOneSettings ''chunksize'']
                               in if \<not> dryrun a \<and>
                                     (case settings_chunksize_value cluster of
                                        None \<Rightarrow> True | Some v \<Rightarrow> v < 128)
                                  then (Inl (Exception
                                          ''The MaxChunkSize must be configured to at least 128 MB''),
                                        t4)
                                  else
                                    (case settings_chunksize_value cluster of
                                       None \<Rightarrow> (Inl TypeError, t4)
                                     | Some target \<Rightarrow>
                                         (Inr (shardKeyPattern, num_chunks, target), t4)))))))"

text \<open>Lines 70 to 83: the loop that groups the chunks by shard and finds the collection
  version. A Python dictionary keeps its keys in insertion order, so \<open>shard_to_chunks\<close> is
  an association list with distinct keys. The progress line of lines 84 to 87 is left
  out.\<close>

record 'k init_state =
  num_chunks_processed :: nat
  shard_to_chunks :: "(shard_id \<times> 'k shard_entry) list"
  collectionVersion :: "timestamp option"

definition init_body :: "'k init_state \<Rightarrow> 'k chunk \<Rightarrow> 'k init_state" where
  "init_body st c =
     (let shardId = chunk_shard c;
          v0 = (case collectionVersion st of None \<Rightarrow> chunk_lastmod c | Some v \<Rightarrow> v);
          v1 = (if ts_greater (chunk_lastmod c) v0 then chunk_lastmod c else v0);
          m0 = (if map_of (shard_to_chunks st) shardId = None
                then shard_to_chunks st @ [(shardId, \<lparr>chunks = [], num_merges_performed = 0\<rparr>)]
                else shard_to_chunks st);
          m1 = map (\<lambda>(s, e). if s = shardId then (s, e\<lparr>chunks := chunks e @ [c]\<rparr>) else (s, e)) m0
      in \<lparr>num_chunks_processed = num_chunks_processed st + 1,
          shard_to_chunks = m1,
          collectionVersion = Some v1\<rparr>)"

definition main_initialisation :: "'k chunk list \<Rightarrow> 'k init_state" where
  "main_initialisation cs =
     foldl init_body
       \<lparr>num_chunks_processed = 0, shard_to_chunks = [], collectionVersion = None\<rparr> cs"

text \<open>Lines 20 to 92: the sanity checks, then the initialisation over the reply of
  \<open>chunks.find\<close>.\<close>

definition main_read_only ::
  "args \<Rightarrow> ('p, 'k) cluster_reads
     \<Rightarrow> (pyerror + ('p \<times> nat \<times> real) \<times> 'k init_state) \<times> main_event list" where
  "main_read_only a cluster =
     (case main_sanity_checks a cluster of
        (Inl e, t) \<Rightarrow> (Inl e, t)
      | (Inr r, t) \<Rightarrow>
          (Inr (r, main_initialisation (chunks_find cluster (ns a))),
           t @ [FindChunks (ns a)]))"

section \<open>The sibling tool \<open>manually_unshard_collection.py\<close>\<close>

text \<open>Lines 18 to 25 of its \<open>main\<close>: the same lookup of the collection document, followed by
  an explicit test of the reply.\<close>

definition unshard_main_lookup :: "string \<Rightarrow> ('p, 'k) cluster_reads \<Rightarrow> pyerror + 'p" where
  "unshard_main_lookup namespace cluster =
     (if \<not> is_mongos cluster then Inl NotMongosException
      else if CHR ''.'' \<notin> set namespace then Inl IndexError
      else case collections_find_one cluster namespace of
             None \<Rightarrow> Inl (Exception (''Collection '' @ namespace @ '' is NOT sharded''))
           | Some collection \<Rightarrow> Inr collection)"

section \<open>Notions used to state the properties\<close>

text \<open>The bounds of the merges in a list of events, in order: the \<open>mergeChunks\<close> commands
  sent and, in a dry run, the merges printed.\<close>

fun merges_issued :: "'k event list \<Rightarrow> ('k \<times> 'k) list" where
  "merges_issued [] = []"
| "merges_issued (MergeChunks lo hi # es) = (lo, hi) # merges_issued es"
| "merges_issued (PrintMerging n s lo hi # es) = (lo, hi) # merges_issued es"
| "merges_issued (e # es) = merges_issued es"

text \<open>The commands sent to the cluster by a worker.\<close>

fun is_command :: "'k event \<Rightarrow> bool" where
  "is_command (DataSize lo hi) = True"
| "is_command (MergeChunks lo hi) = True"
| "is_command e = False"

text \<open>The semaphores taken, in order.\<close>

fun acquired :: "'k event list \<Rightarrow> gate list" where
  "acquired [] = []"
| "acquired (Acquire g # es) = g # acquired es"
| "acquired (e # es) = acquired es"

text \<open>A run of chunks each of which ends where the next begins.\<close>

fun contiguous :: "'k chunk list \<Rightarrow> bool" where
  "contiguous [] = True"
| "contiguous [x] = True"
| "contiguous (x # y # cs) = (chunk_max x = chunk_min y \<and> contiguous (y # cs))"

text \<open>The events of one iteration of the loop: those it adds to the trace.\<close>

definition step_events ::
  "('k, 's) env \<Rightarrow> shard_id \<Rightarrow> ('k, 's) wstate \<Rightarrow> 'k chunk \<Rightarrow> 'k event list" where
  "step_events E shard st c = drop (length (trace st)) (trace (snd (loop_body E shard st c)))"

text \<open>A merge over bounds that are those of a contiguous run of at least two chunks
  lying in the list \<open>all\<close> without a gap.\<close>

definition covered :: "'k chunk list \<Rightarrow> 'k \<times> 'k \<Rightarrow> bool" where
  "covered all b \<longleftrightarrow>
     (\<exists>p run q. all = p @ run @ q \<and> 2 \<le> length run \<and> contiguous run
        \<and> b = (chunk_min (hd run), chunk_max (last run)))"

text \<open>Every entry of the dictionary holds chunks of its own shard only, and no merge has
  been counted yet.\<close>

definition owned :: "(shard_id \<times> 'k shard_entry) list \<Rightarrow> bool" where
  "owned m \<longleftrightarrow>
     (\<forall>(s, e)\<in>set m. (\<forall>c\<in>set (chunks e). chunk_shard c = s) \<and> num_merges_performed e = 0)"

text \<open>The two shapes an iteration can have. A quiet one sends at most a \<open>dataSize\<close>
  command and leaves the version flag and the counter alone; a merging one takes the
  semaphore chosen by the flag and merges the run.\<close>

definition quiet :: "('k, 's) env \<Rightarrow> ('k, 's) wstate \<Rightarrow> ('k, 's) wstate \<Rightarrow> bool" where
  "quiet E st st' \<longleftrightarrow>
     (trace st' = trace st
        \<or> (\<not> dryrun (args E) \<and> (\<exists>lo hi. trace st' = trace st @ [DataSize lo hi])))
     \<and> shard_is_at_collection_version st' = shard_is_at_collection_version st
     \<and> merges_performed st' = merges_performed st
     \<and> (dryrun (args E) \<longrightarrow> cluster_state st' = cluster_state st)"

definition merged ::
  "('k, 's) env \<Rightarrow> shard_id \<Rightarrow> 'k chunk list \<Rightarrow> ('k, 's) wstate \<Rightarrow> ('k, 's) wstate \<Rightarrow> bool" where
  "merged E shard run st st' \<longleftrightarrow>
     (let lo = chunk_min (hd run); hi = chunk_max (last run);
          g = gate_for (shard_is_at_collection_version st)
      in if dryrun (args E)
         then trace st' = trace st @ [Acquire g, PrintMerging (length run) shard lo hi, Release g]
              \<and> cluster_state st' = cluster_state st
         else trace st' = trace st @ [DataSize lo hi, Acquire g, MergeChunks lo hi, Release g]
            \<or> trace st' = trace st @ [DataSize lo hi, Acquire g, MergeChunks lo hi,
                                      PrintWarning lo hi, Release g])"

text \<open>
  An iteration that commits the run: in a dry run it takes the semaphore chosen by the
  version flag, prints the merge of the run and gives the semaphore back, and the
  cluster is left alone; otherwise it asks for the size of the run, takes the semaphore,
  sends \<open>mergeChunks\<close> over the bounds of the run (warning once if the cluster answers
  LockBusy) and gives the semaphore back, and the cluster is in the state in which the
  \<open>mergeChunks\<close> command, sent after the \<open>dataSize\<close> command, has left it.
\<close>

definition commits ::
  "('k, 's) env \<Rightarrow> shard_id \<Rightarrow> ('k, 's) wstate \<Rightarrow> 'k chunk \<Rightarrow> 'k chunk list \<Rightarrow> bool" where
  "commits E shard st c run \<longleftrightarrow>
     (let lo = chunk_min (hd run); hi = chunk_max (last run);
          g = gate_for (shard_is_at_collection_version st);
          st' = snd (loop_body E shard st c)
      in if dryrun (args E)
         then step_events E shard st c
                = [Acquire g, PrintMerging (length run) shard lo hi, Release g]
              \<and> cluster_state st' = cluster_state st
         else (step_events E shard st c
                 = [DataSize lo hi, Acquire g, MergeChunks lo hi, Release g]
               \<or> step_events E shard st c
                 = [DataSize lo hi, Acquire g, MergeChunks lo hi, PrintWarning lo hi, Release g])
              \<and> cluster_state st'
                  = snd (mergeChunks E (snd (dataSize E (cluster_state st) lo hi)) lo hi))"

section \<open>Concrete inputs\<close>

definition chunk_of :: "int \<Rightarrow> int \<Rightarrow> shard_id \<Rightarrow> timestamp \<Rightarrow> int chunk" where
  "chunk_of lo hi s v = \<lparr>chunk_min = lo, chunk_max = hi, chunk_shard = s, chunk_lastmod = v\<rparr>"

text \<open>The three chunks of the scenario of the specification.\<close>

definition scenario_chunks :: "int chunk list" where
  "scenario_chunks =
     [chunk_of 0 10 ''S'' (Timestamp 1 0), chunk_of 10 20 ''S'' (Timestamp 1 0),
      chunk_of 20 30 ''S'' (Timestamp 1 1)]"

text \<open>Four chunks in a row on a shard \<open>S\<close> that is below the collection version, which
  a chunk of the shard \<open>T\<close> carries; and the shard \<open>S\<close> with the chunk of \<open>T\<close> in the
  middle of its key range.\<close>

definition four_in_a_row :: "int chunk list" where
  "four_in_a_row =
     [chunk_of 0 10 ''S'' (Timestamp 1 0), chunk_of 10 20 ''S'' (Timestamp 1 1),
      chunk_of 20 30 ''S'' (Timestamp 1 2), chunk_of 30 40 ''S'' (Timestamp 1 3),
      chunk_of 40 50 ''T'' (Timestamp 2 0)]"

definition two_shard_chunks :: "int chunk list" where
  "two_shard_chunks =
     [chunk_of 0 10 ''S'' (Timestamp 1 0), chunk_of 10 20 ''S'' (Timestamp 1 1),
      chunk_of 20 30 ''T'' (Timestamp 2 0), chunk_of 30 40 ''S'' (Timestamp 1 2),
      chunk_of 40 50 ''S'' (Timestamp 1 3)]"

text \<open>A dry run, and a run against a cluster that answers every \<open>dataSize\<close> with the same
  size and every \<open>mergeChunks\<close> with the same reply. Their arithmetic is that of the
  reals: they are used on whole numbers, whose sums Python computes exactly, and where
  Python's product with \<open>0.90\<close> or \<open>1.10\<close> is not the exact one it lies on the same side
  of every whole number.\<close>

definition plan_env :: "real \<Rightarrow> real \<Rightarrow> (int, unit) env" where
  "plan_env estimate target =
     \<lparr>args = \<lparr>ns = ''db.coll'', dryrun = True, phase_1_estimated_chunk_size_mb = estimate\<rparr>,
      target_chunk_size = target,
      dataSize = (\<lambda>s lo hi. (Inl (OtherError ''not connected''), s)),
      mergeChunks = (\<lambda>s lo hi. (Some (OtherError ''not connected''), s)),
      py_add = (\<lambda>a b. a + b), py_mul = (\<lambda>a b. a * b), py_float = (\<lambda>a. a)\<rparr>"

definition commit_env :: "real \<Rightarrow> real \<Rightarrow> real \<Rightarrow> pyerror option \<Rightarrow> (int, unit) env" where
  "commit_env estimate target size_bytes merge_reply =
     \<lparr>args = \<lparr>ns = ''db.coll'', dryrun = False, phase_1_estimated_chunk_size_mb = estimate\<rparr>,
      target_chunk_size = target,
      dataSize = (\<lambda>s lo hi. (Inr size_bytes, s)),
      mergeChunks = (\<lambda>s lo hi. (merge_reply, s)),
      py_add = (\<lambda>a b. a + b), py_mul = (\<lambda>a b. a * b), py_float = (\<lambda>a. a)\<rparr>"

definition state_with :: "int chunk list \<Rightarrow> real \<Rightarrow> (int, unit) wstate" where
  "state_with cs estimate =
     \<lparr>consecutive_chunks = cs, estimated_size_of_consecutive_chunks = estimate,
      shard_is_at_collection_version = False, num_lock_busy_errors_encountered = 0,
      merges_performed = 0, trace = [], cluster_state = ()\<rparr>"

text \<open>A cluster on which the balancer and the auto-splitter are running.\<close>

definition sample_reads :: "string option \<Rightarrow> real option \<Rightarrow> (string, int) cluster_reads" where
  "sample_reads pattern chunksize =
     \<lparr>collections_find_one = (\<lambda>n. if n = ''db.coll'' then pattern else None),
      chunks_count_documents = (\<lambda>n. 3),
      is_mongos = True,
      yes_no = True,
      settings_balancer_mode = Some ''full'',
      settings_autosplit_enabled = Some True,
      settings_chunksize_value = chunksize,
      chunks_find = (\<lambda>n. scenario_chunks)\<rparr>"

section \<open>One iteration of the loop\<close>

lemma actual_size_frame:
  assumes "actual_size_of_consecutive_chunks E st = (r, st')"
  shows "consecutive_chunks st' = consecutive_chunks st
       \<and> estimated_size_of_consecutive_chunks st' = estimated_size_of_consecutive_chunks st
       \<and> shard_is_at_collection_version st' = shard_is_at_collection_version st
       \<and> num_lock_busy_errors_encountered st' = num_lock_busy_errors_encountered st
       \<and> merges_performed st' = merges_performed st
       \<and> (if dryrun (args E) then trace st' = trace st \<and> cluster_state st' = cluster_state st
              \<and> r = Inr (estimated_size_of_consecutive_chunks st)
          else trace st' = trace st @ [DataSize (chunk_min (hd (consecutive_chunks st)))
                                          (chunk_max (last (consecutive_chunks st)))])"
  using assms
  by (auto simp: actual_size_of_consecutive_chunks_def mergeCommand_bounds_def Let_def
           split: if_splits prod.splits sum.splits)

lemma perform_merge_frame:
  assumes "perform_merge E shard st = (r, st')"
  shows "consecutive_chunks st' = consecutive_chunks st
       \<and> estimated_size_of_consecutive_chunks st' = estimated_size_of_consecutive_chunks st
       \<and> shard_is_at_collection_version st' = shard_is_at_collection_version st
       \<and> merges_performed st' = merges_performed st
       \<and> (\<exists>mid. trace st' = trace st @ Acquire (gate_for (shard_is_at_collection_version st)) # mid
                     @ [Release (gate_for (shard_is_at_collection_version st))]
            \<and> (if dryrun (args E)
               then mid = [PrintMerging (length (consecutive_chunks st)) shard
                             (chunk_min (hd (consecutive_chunks st)))
                             (chunk_max (last (consecutive_chunks st)))]
                    \<and> cluster_state st' = cluster_state st \<and> r = None
               else mid = [MergeChunks (chunk_min (hd (consecutive_chunks st)))
                             (chunk_max (last (consecutive_chunks st)))]
                  \<or> mid = [MergeChunks (chunk_min (hd (consecutive_chunks st)))
                             (chunk_max (last (consecutive_chunks st))),
                           PrintWarning (chunk_min (hd (consecutive_chunks st)))
                             (chunk_max (last (consecutive_chunks st)))]))"
  using assms
  by (auto simp: perform_merge_def mergeCommand_bounds_def Let_def
           split: if_splits prod.splits option.splits pyerror.splits)

lemma merged_step_merges:
  "merged E shard run st st' \<Longrightarrow>
     merges_issued (drop (length (trace st)) (trace st')) = [(chunk_min (hd run), chunk_max (last run))]"
  by (auto simp: merged_def Let_def split: if_splits)

lemma evaluate_candidate_underfilled:
  assumes "actual_size_of_consecutive_chunks E st = (Inr actual, st1)"
    and "actual < py_mul E (target_chunk_size E) 0.75"
  shows "evaluate_candidate E shard False c st
           = (None, st1\<lparr>estimated_size_of_consecutive_chunks := actual\<rparr>)"
  using assms by (simp add: evaluate_candidate_def)

lemma evaluate_candidate_commit:
  assumes a: "actual_size_of_consecutive_chunks E st = (Inr actual, st1)"
    and d: "f \<or> \<not> actual < py_mul E (target_chunk_size E) 0.75"
    and ev: "evaluate_candidate E shard f c st = (r, st')"
  shows "merged E shard (consecutive_chunks st) st st'
       \<and> (r = None \<longrightarrow> consecutive_chunks st' = (if f then [c] else [])
             \<and> estimated_size_of_consecutive_chunks st'
                 = (if f then phase_1_estimated_chunk_size_mb (args E) else 0)
             \<and> shard_is_at_collection_version st'
             \<and> merges_performed st' = Suc (merges_performed st))"
proof -
  note fr1 = actual_size_frame [OF a]
  obtain r2 st2 where pm: "perform_merge E shard st1 = (r2, st2)"
    by (cases "perform_merge E shard st1")
  note fr2 = perform_merge_frame [OF pm]
  from a d ev pm have res:
    "(r, st') = (case r2 of Some e \<Rightarrow> (Some e, st2) | None \<Rightarrow> (None, after_merge E f c st2))"
    by (auto simp: evaluate_candidate_def split: option.splits)
  have m: "merged E shard (consecutive_chunks st) st st2"
    using fr1 fr2 by (auto simp: merged_def Let_def split: if_splits)
  show ?thesis
  proof (cases r2)
    case None
    with res have "st' = after_merge E f c st2" "r = None" by auto
    with m fr1 fr2 show ?thesis
      by (auto simp: merged_def after_merge_def Let_def split: if_splits)
  next
    case (Some e)
    with res have "st' = st2" "r = Some e" by auto
    with m show ?thesis by simp
  qed
qed

lemma actual_size_cluster:
  assumes "actual_size_of_consecutive_chunks E st = (r, st')" and "\<not> dryrun (args E)"
  shows "cluster_state st'
           = snd (dataSize E (cluster_state st) (chunk_min (hd (consecutive_chunks st)))
                    (chunk_max (last (consecutive_chunks st))))"
  using assms
  by (auto simp: actual_size_of_consecutive_chunks_def mergeCommand_bounds_def Let_def
           split: if_splits prod.splits sum.splits)

lemma perform_merge_cluster:
  assumes "perform_merge E shard st = (r, st')" and "\<not> dryrun (args E)"
  shows "cluster_state st'
           = snd (mergeChunks E (cluster_state st) (chunk_min (hd (consecutive_chunks st)))
                    (chunk_max (last (consecutive_chunks st))))"
  using assms
  by (auto simp: perform_merge_def mergeCommand_bounds_def Let_def
           split: if_splits prod.splits option.splits pyerror.splits)

lemma evaluate_candidate_commit_cluster:
  assumes a: "actual_size_of_consecutive_chunks E st = (Inr actual, st1)"
    and d: "f \<or> \<not> actual < py_mul E (target_chunk_size E) 0.75"
    and ev: "evaluate_candidate E shard f c st = (r, st')"
    and nd: "\<not> dryrun (args E)"
  shows "cluster_state st'
           = snd (mergeChunks E
                    (snd (dataSize E (cluster_state st) (chunk_min (hd (consecutive_chunks st)))
                            (chunk_max (last (consecutive_chunks st)))))
                    (chunk_min (hd (consecutive_chunks st)))
                    (chunk_max (last (consecutive_chunks st))))"
proof -
  note fr1 = actual_size_frame [OF a]
  note c1 = actual_size_cluster [OF a nd]
  obtain r2 st2 where pm: "perform_merge E shard st1 = (r2, st2)"
    by (cases "perform_merge E shard st1")
  note c2 = perform_merge_cluster [OF pm nd]
  from a d ev pm have res:
    "(r, st') = (case r2 of Some e \<Rightarrow> (Some e, st2) | None \<Rightarrow> (None, after_merge E f c st2))"
    by (auto simp: evaluate_candidate_def split: option.splits)
  then have "cluster_state st' = cluster_state st2"
    by (cases r2) (auto simp: after_merge_def Let_def)
  with c1 c2 fr1 show ?thesis by simp
qed

lemma merged_commits:
  assumes "snd (loop_body E shard st c) = st'"
    and "merged E shard run st st'"
    and "\<not> dryrun (args E) \<Longrightarrow> cluster_state st'
           = snd (mergeChunks E
                    (snd (dataSize E (cluster_state st) (chunk_min (hd run))
                            (chunk_max (last run))))
                    (chunk_min (hd run)) (chunk_max (last run)))"
  shows "commits E shard st c run"
  using assms
  by (auto simp: commits_def merged_def step_events_def Let_def split: if_splits)

lemma evaluate_candidate_shape:
  assumes "evaluate_candidate E shard f c st = (r, st')"
  shows "(quiet E st st' \<and> (r = None \<longrightarrow> \<not> f \<and> consecutive_chunks st' = consecutive_chunks st))
       \<or> (merged E shard (consecutive_chunks st) st st'
          \<and> (r = None \<longrightarrow> shard_is_at_collection_version st'
                \<and> merges_performed st' = Suc (merges_performed st)
                \<and> consecutive_chunks st' = (if f then [c] else [])))"
proof (cases "actual_size_of_consecutive_chunks E st")
  case (Pair a st1)
  note fr1 = actual_size_frame [OF Pair]
  show ?thesis
  proof (cases a)
    case (Inl e)
    with Pair assms have "st' = st1" "r = Some e"
      by (auto simp: evaluate_candidate_def)
    with fr1 Inl show ?thesis
      by (auto simp: quiet_def split: if_splits)
  next
    case (Inr actual)
    show ?thesis
    proof (cases "\<not> f \<and> actual < py_mul E (target_chunk_size E) 0.75")
      case True
      with Pair Inr assms
      have "st' = st1\<lparr>estimated_size_of_consecutive_chunks := actual\<rparr>" "r = None"
        by (auto simp: evaluate_candidate_def)
      with fr1 True show ?thesis
        by (auto simp: quiet_def split: if_splits)
    next
      case False
      then have "f \<or> \<not> actual < py_mul E (target_chunk_size E) 0.75" by blast
      from evaluate_candidate_commit [OF Pair [unfolded Inr] this assms]
      show ?thesis by simp
    qed
  qed
qed

lemma loop_body_shape:
  assumes "loop_body E shard st c = (r, st')"
  shows "(quiet E st st'
          \<and> (r = None \<longrightarrow> consecutive_chunks st' = [c]
                \<or> (consecutive_chunks st \<noteq> []
                   \<and> chunk_max (last (consecutive_chunks st)) = chunk_min c
                   \<and> consecutive_chunks st' = consecutive_chunks st @ [c])))
       \<or> (\<exists>run. merged E shard run st st'
            \<and> (run = consecutive_chunks st \<and> 2 \<le> length run
               \<or> (consecutive_chunks st \<noteq> []
                  \<and> chunk_max (last (consecutive_chunks st)) = chunk_min c
                  \<and> run = consecutive_chunks st @ [c]))
            \<and> (r = None \<longrightarrow> shard_is_at_collection_version st'
                  \<and> merges_performed st' = Suc (merges_performed st)
                  \<and> (consecutive_chunks st' = [c] \<or> consecutive_chunks st' = [])))"
proof (cases "consecutive_chunks st = []")
  case True
  with assms show ?thesis by (auto simp: loop_body_def quiet_def)
next
  case ne: False
  show ?thesis
  proof (cases "chunk_max (last (consecutive_chunks st)) = chunk_min c")
    case link: True
    define st1 where "st1 = st\<lparr>consecutive_chunks := consecutive_chunks st @ [c],
                      estimated_size_of_consecutive_chunks :=
                        py_add E (estimated_size_of_consecutive_chunks st)
                          (phase_1_estimated_chunk_size_mb (args E))\<rparr>"
    show ?thesis
    proof (cases "estimated_size_of_consecutive_chunks st1
                    \<le> py_mul E (target_chunk_size E) 0.90")
      case True
      with ne link assms have "st' = st1" "r = None"
        by (auto simp: loop_body_def st1_def Let_def)
      with ne link show ?thesis by (auto simp: quiet_def st1_def)
    next
      case False
      with ne link assms have "evaluate_candidate E shard False c st1 = (r, st')"
        by (auto simp: loop_body_def st1_def Let_def)
      note sh = evaluate_candidate_shape [OF this]
      have q: "quiet E st1 st' = quiet E st st'"
        by (simp add: quiet_def st1_def)
      have m: "merged E shard (consecutive_chunks st1) st1 st'
                 = merged E shard (consecutive_chunks st @ [c]) st st'"
        by (simp add: merged_def st1_def)
      have cc: "consecutive_chunks st1 = consecutive_chunks st @ [c]"
        by (simp add: st1_def)
      from sh show ?thesis
      proof
        assume "quiet E st1 st' \<and> (r = None \<longrightarrow> \<not> False \<and> consecutive_chunks st' = consecutive_chunks st1)"
        with q cc ne link show ?thesis by simp
      next
        assume "merged E shard (consecutive_chunks st1) st1 st' \<and>
                (r = None \<longrightarrow> shard_is_at_collection_version st' \<and>
                 merges_performed st' = Suc (merges_performed st1) \<and>
                 consecutive_chunks st' = (if False then [c] else []))"
        then have "merged E shard (consecutive_chunks st @ [c]) st st'"
          and "r = None \<longrightarrow> shard_is_at_collection_version st' \<and>
                 merges_performed st' = Suc (merges_performed st) \<and>
                 consecutive_chunks st' = []"
          using m by (simp_all add: st1_def)
        with ne link show ?thesis by blast
      qed
    qed
  next
    case nolink: False
    show ?thesis
    proof (cases "length (consecutive_chunks st) = 1")
      case True
      with ne nolink assms show ?thesis by (auto simp: loop_body_def quiet_def)
    next
      case False
      with ne nolink assms have "evaluate_candidate E shard True c st = (r, st')"
        by (auto simp: loop_body_def)
      moreover from False ne have "2 \<le> length (consecutive_chunks st)"
        by (cases "consecutive_chunks st") (auto simp: Suc_le_eq)
      ultimately show ?thesis
        using evaluate_candidate_shape [of E shard True c st r st'] by auto
    qed
  qed
qed

section \<open>The whole loop\<close>

lemma acquired_append: "acquired (xs @ ys) = acquired xs @ acquired ys"
  by (induction xs rule: acquired.induct) auto

lemma merges_issued_append: "merges_issued (xs @ ys) = merges_issued xs @ merges_issued ys"
  by (induction xs rule: merges_issued.induct) auto

lemma quiet_acquired: "quiet E st st' \<Longrightarrow> acquired (trace st') = acquired (trace st)"
  by (auto simp: quiet_def acquired_append)

lemma quiet_merges: "quiet E st st' \<Longrightarrow> merges_issued (trace st') = merges_issued (trace st)"
  by (auto simp: quiet_def merges_issued_append)

lemma quiet_commands:
  "quiet E st st' \<Longrightarrow> dryrun (args E) \<Longrightarrow> filter is_command (trace st') = filter is_command (trace st)"
  by (auto simp: quiet_def)

lemma merged_acquired:
  "merged E shard run st st' \<Longrightarrow>
     acquired (trace st') = acquired (trace st) @ [gate_for (shard_is_at_collection_version st)]"
  by (auto simp: merged_def Let_def acquired_append split: if_splits)

lemma merged_merges:
  "merged E shard run st st' \<Longrightarrow>
     merges_issued (trace st') = merges_issued (trace st) @ [(chunk_min (hd run), chunk_max (last run))]"
  by (auto simp: merged_def Let_def merges_issued_append split: if_splits)

lemma merged_commands:
  "merged E shard run st st' \<Longrightarrow> dryrun (args E) \<Longrightarrow>
     filter is_command (trace st') = filter is_command (trace st) \<and> cluster_state st' = cluster_state st"
  by (auto simp: merged_def Let_def)

lemma loop_body_dry:
  assumes "dryrun (args E)" "loop_body E shard st c = (r, st')"
  shows "filter is_command (trace st') = filter is_command (trace st)
       \<and> cluster_state st' = cluster_state st"
  using loop_body_shape [OF assms(2)] assms(1)
  by (auto dest: quiet_commands merged_commands simp: quiet_def)

lemma for_loop_dry:
  assumes "dryrun (args E)"
  shows "for_loop E shard st cs = (r, st') \<Longrightarrow>
         filter is_command (trace st') = filter is_command (trace st)
       \<and> cluster_state st' = cluster_state st"
proof (induction cs arbitrary: st)
  case Nil
  then show ?case by simp
next
  case (Cons c cs)
  obtain r1 st1 where b: "loop_body E shard st c = (r1, st1)"
    by (cases "loop_body E shard st c")
  note d = loop_body_dry [OF assms b]
  show ?case
  proof (cases r1)
    case None
    with Cons.prems b have "for_loop E shard st1 cs = (r, st')" by simp
    from Cons.IH [OF this] d show ?thesis by simp
  next
    case (Some e)
    with Cons.prems b have "st' = st1" by simp
    with d show ?thesis by simp
  qed
qed

lemma for_loop_gates:
  "for_loop E shard st cs = (r, st') \<Longrightarrow>
     \<exists>gs. acquired (trace st') = acquired (trace st) @ gs
        \<and> set (tl gs) \<subseteq> {sem_at_collection_version}
        \<and> (shard_is_at_collection_version st \<longrightarrow> set gs \<subseteq> {sem_at_collection_version})"
proof (induction cs arbitrary: st)
  case Nil
  then show ?case by simp
next
  case (Cons c cs)
  obtain r1 st1 where b: "loop_body E shard st c = (r1, st1)"
    by (cases "loop_body E shard st c")
  from Cons.prems b have rest: "r1 = None \<Longrightarrow> for_loop E shard st1 cs = (r, st')"
    and stop: "r1 \<noteq> None \<Longrightarrow> st' = st1"
    by auto
  from loop_body_shape [OF b] consider
      (q) "quiet E st st1"
    | (m) run where "merged E shard run st st1"
        "r1 = None \<longrightarrow> shard_is_at_collection_version st1"
    by blast
  then show ?case
  proof cases
    case q
    then have same: "acquired (trace st1) = acquired (trace st)"
      "shard_is_at_collection_version st1 = shard_is_at_collection_version st"
      using quiet_acquired [OF q] by (simp_all add: quiet_def)
    show ?thesis
    proof (cases r1)
      case None
      from Cons.IH [OF rest [OF None]] show ?thesis
        unfolding same .
    next
      case (Some e)
      with stop same show ?thesis by simp
    qed
  next
    case m
    note fin = m(2)
    let ?g = "gate_for (shard_is_at_collection_version st)"
    have g: "shard_is_at_collection_version st \<Longrightarrow> ?g = sem_at_collection_version"
      by (simp add: gate_for_def)
    show ?thesis
    proof (cases r1)
      case None
      with fin have at: "shard_is_at_collection_version st1" by simp
      from Cons.IH [OF rest [OF None]] at obtain gs where
        gs: "acquired (trace st') = acquired (trace st1) @ gs"
            "set gs \<subseteq> {sem_at_collection_version}"
        by blast
      then have "acquired (trace st') = acquired (trace st) @ (?g # gs)"
        using merged_acquired [OF m(1)] by simp
      with gs(2) g show ?thesis by (intro exI [of _ "?g # gs"]) auto
    next
      case (Some e)
      with stop have "acquired (trace st') = acquired (trace st) @ [?g]"
        using merged_acquired [OF m(1)] by simp
      with g show ?thesis by (intro exI [of _ "[?g]"]) auto
    qed
  qed
qed

lemma coveredI:
  "all = p @ run @ q \<Longrightarrow> 2 \<le> length run \<Longrightarrow> contiguous run
     \<Longrightarrow> covered all (chunk_min (hd run), chunk_max (last run))"
  unfolding covered_def by blast

lemma contiguous_snoc:
  "cs \<noteq> [] \<Longrightarrow> contiguous cs \<Longrightarrow> chunk_max (last cs) = chunk_min c \<Longrightarrow> contiguous (cs @ [c])"
  by (induction cs rule: contiguous.induct) auto

lemma for_loop_merges:
  "contiguous (consecutive_chunks st) \<Longrightarrow> for_loop E shard st cs = (r, st') \<Longrightarrow>
     \<exists>ms. merges_issued (trace st') = merges_issued (trace st) @ ms
        \<and> (\<forall>b\<in>set ms. covered (pre @ consecutive_chunks st @ cs) b)"
proof (induction cs arbitrary: st pre)
  case Nil
  then show ?case by simp
next
  case (Cons c cs)
  let ?cc = "consecutive_chunks st"
  obtain r1 st1 where b: "loop_body E shard st c = (r1, st1)"
    by (cases "loop_body E shard st c")
  from Cons.prems(2) b have rest: "r1 = None \<Longrightarrow> for_loop E shard st1 cs = (r, st')"
    and stop: "r1 \<noteq> None \<Longrightarrow> st' = st1"
    by auto
  have next_ok: "\<exists>pre1. contiguous (consecutive_chunks st1)
                  \<and> pre1 @ consecutive_chunks st1 @ cs = pre @ ?cc @ c # cs"
    if "r1 = None"
  proof -
    from loop_body_shape [OF b] that have
      "consecutive_chunks st1 = [c] \<or> consecutive_chunks st1 = []
       \<or> (?cc \<noteq> [] \<and> chunk_max (last ?cc) = chunk_min c \<and> consecutive_chunks st1 = ?cc @ [c])"
      by blast
    then show ?thesis
    proof (elim disjE)
      assume a: "consecutive_chunks st1 = [c]"
      show ?thesis by (rule exI [of _ "pre @ ?cc"]) (simp add: a)
    next
      assume a: "consecutive_chunks st1 = []"
      show ?thesis by (rule exI [of _ "pre @ ?cc @ [c]"]) (simp add: a)
    next
      assume a: "?cc \<noteq> [] \<and> chunk_max (last ?cc) = chunk_min c \<and> consecutive_chunks st1 = ?cc @ [c]"
      with Cons.prems(1) have "contiguous (consecutive_chunks st1)"
        by (simp add: contiguous_snoc)
      with a show ?thesis by (intro exI [of _ pre]) simp
    qed
  qed
  have tail: "\<exists>ms. merges_issued (trace st') = merges_issued (trace st1) @ ms
                \<and> (\<forall>b\<in>set ms. covered (pre @ ?cc @ c # cs) b)"
  proof (cases r1)
    case None
    from next_ok [OF None] obtain pre1 where p1: "contiguous (consecutive_chunks st1)"
      "pre1 @ consecutive_chunks st1 @ cs = pre @ ?cc @ c # cs" by blast
    from Cons.IH [OF p1(1) rest [OF None], of pre1] p1(2) show ?thesis by simp
  next
    case (Some e)
    with stop show ?thesis by simp
  qed
  from loop_body_shape [OF b] consider
      (q) "quiet E st st1"
    | (m) run where "merged E shard run st st1"
        "run = ?cc \<and> 2 \<le> length run
         \<or> (?cc \<noteq> [] \<and> chunk_max (last ?cc) = chunk_min c \<and> run = ?cc @ [c])"
    by blast
  then show ?case
  proof cases
    case q
    from tail show ?thesis unfolding quiet_merges [OF q] .
  next
    case m
    have cov: "covered (pre @ ?cc @ c # cs) (chunk_min (hd run), chunk_max (last run))"
      using m(2)
    proof
      assume a: "run = ?cc \<and> 2 \<le> length run"
      with Cons.prems(1) show ?thesis
        by (intro coveredI [of _ pre run "c # cs"]) auto
    next
      assume a: "?cc \<noteq> [] \<and> chunk_max (last ?cc) = chunk_min c \<and> run = ?cc @ [c]"
      with Cons.prems(1) have "contiguous run" by (simp add: contiguous_snoc)
      moreover from a have "2 \<le> length run" by (cases ?cc) auto
      ultimately show ?thesis
        using a by (intro coveredI [of _ pre run cs]) auto
    qed
    from tail obtain ms where ms: "merges_issued (trace st') = merges_issued (trace st1) @ ms"
      "\<forall>b\<in>set ms. covered (pre @ ?cc @ c # cs) b" by blast
    from ms(1) have "merges_issued (trace st')
        = merges_issued (trace st) @ ((chunk_min (hd run), chunk_max (last run)) # ms)"
      by (simp add: merged_merges [OF m(1)])
    with ms(2) cov show ?thesis
      by (intro exI [of _ "(chunk_min (hd run), chunk_max (last run)) # ms"]) simp
  qed
qed

lemma init_body_owned: "owned (shard_to_chunks st) \<Longrightarrow> owned (shard_to_chunks (init_body st c))"
  by (fastforce simp: owned_def init_body_def Let_def split: if_splits)

lemma foldl_init_body_owned:
  "owned (shard_to_chunks st) \<Longrightarrow> owned (shard_to_chunks (foldl init_body st cs))"
  by (induction cs arbitrary: st) (simp_all add: init_body_owned)

lemma main_initialisation_owned: "owned (shard_to_chunks (main_initialisation cs))"
  unfolding main_initialisation_def
  by (rule foldl_init_body_owned) (simp add: owned_def)

section \<open>The worker as a whole\<close>

lemma worker_start_simps:
  "consecutive_chunks (worker_start shard e cv s0) = []"
  "acquired (trace (worker_start shard e cv s0)) = []"
  "merges_issued (trace (worker_start shard e cv s0)) = []"
  "filter is_command (trace (worker_start shard e cv s0)) = []"
  "cluster_state (worker_start shard e cv s0) = s0"
  by (simp_all add: worker_start_def Let_def)

lemma worker_cases:
  obtains (idle) "events (merge_chunks_on_shard E m shard cv s0) = []"
      "cluster_after (merge_chunks_on_shard E m shard cv s0) = s0"
    | (loop) e r st where "map_of m shard = Some e" "2 \<le> length (chunks e)"
      "for_loop E shard (worker_start shard e cv s0) (chunks e) = (r, st)"
      "events (merge_chunks_on_shard E m shard cv s0) = trace st"
      "cluster_after (merge_chunks_on_shard E m shard cv s0) = cluster_state st"
proof (cases "map_of m shard")
  case None
  then show ?thesis by (intro idle) (simp_all add: merge_chunks_on_shard_def)
next
  case (Some e)
  show ?thesis
  proof (cases "length (chunks e) < 2")
    case True
    with Some show ?thesis by (intro idle) (simp_all add: merge_chunks_on_shard_def)
  next
    case False
    obtain r st where fl: "for_loop E shard (worker_start shard e cv s0) (chunks e) = (r, st)"
      by (cases "for_loop E shard (worker_start shard e cv s0) (chunks e)")
    with Some False show ?thesis
      by (intro loop [of e r st]) (simp_all add: merge_chunks_on_shard_def)
  qed
qed

lemma tl_all_bounds_filter:
  assumes "set (tl gs) \<subseteq> {sem_at_collection_version}"
  shows "length (filter (\<lambda>g. g = sem_at_less_than_collection_version) gs) \<le> 1"
proof (cases gs)
  case Nil
  then show ?thesis by simp
next
  case (Cons g gs')
  with assms have "filter (\<lambda>g. g = sem_at_less_than_collection_version) gs' = []"
    by (auto simp: filter_empty_conv)
  with Cons show ?thesis by simp
qed

section \<open>Evaluation of the concrete inputs\<close>

lemmas run_defs = merge_chunks_on_shard_def worker_start_def loop_body_def
  evaluate_candidate_def actual_size_of_consecutive_chunks_def perform_merge_def
  after_merge_def mergeCommand_bounds_def gate_for_def Let_def

lemmas input_defs = chunk_of_def scenario_chunks_def plan_env_def commit_env_def
  four_in_a_row_def two_shard_chunks_def state_with_def

lemmas init_defs = main_initialisation_def init_body_def Let_def

lemma init_scenario:
  "main_initialisation scenario_chunks =
     \<lparr>num_chunks_processed = 3,
      shard_to_chunks = [(''S'', \<lparr>chunks = scenario_chunks, num_merges_performed = 0\<rparr>)],
      collectionVersion = Some (Timestamp 1 1)\<rparr>"
  by (simp add: init_defs input_defs)

lemma init_four:
  "main_initialisation four_in_a_row =
     \<lparr>num_chunks_processed = 5,
      shard_to_chunks =
        [(''S'', \<lparr>chunks = take 4 four_in_a_row, num_merges_performed = 0\<rparr>),
         (''T'', \<lparr>chunks = [chunk_of 40 50 ''T'' (Timestamp 2 0)], num_merges_performed = 0\<rparr>)],
      collectionVersion = Some (Timestamp 2 0)\<rparr>"
  by (simp add: init_defs input_defs)

lemma init_two_shards:
  "main_initialisation two_shard_chunks =
     \<lparr>num_chunks_processed = 5,
      shard_to_chunks =
        [(''S'', \<lparr>chunks = [chunk_of 0 10 ''S'' (Timestamp 1 0), chunk_of 10 20 ''S'' (Timestamp 1 1),
                            chunk_of 30 40 ''S'' (Timestamp 1 2), chunk_of 40 50 ''S'' (Timestamp 1 3)],
                  num_merges_performed = 0\<rparr>),
         (''T'', \<lparr>chunks = [chunk_of 20 30 ''T'' (Timestamp 2 0)], num_merges_performed = 0\<rparr>)],
      collectionVersion = Some (Timestamp 2 0)\<rparr>"
  by (simp add: init_defs input_defs)

lemma run_four_commit:
  "merge_chunks_on_shard (commit_env 60 128 134217728 None)
      (shard_to_chunks (main_initialisation four_in_a_row)) ''S'' (Timestamp 2 0) ()
   = \<lparr>raised = None, num_merges_after = 2,
      events = [PrintStart ''S'' (Timestamp 1 3) False,
                DataSize 0 20, Acquire sem_at_less_than_collection_version, MergeChunks 0 20,
                Release sem_at_less_than_collection_version,
                DataSize 20 40, Acquire sem_at_collection_version, MergeChunks 20 40,
                Release sem_at_collection_version],
      cluster_after = ()\<rparr>"
  by (simp add: init_four) (simp add: run_defs input_defs)

lemma run_two_shards_plan:
  "merge_chunks_on_shard (plan_env 25 64)
      (shard_to_chunks (main_initialisation two_shard_chunks)) ''S'' (Timestamp 2 0) ()
   = \<lparr>raised = None, num_merges_after = 1,
      events = [PrintStart ''S'' (Timestamp 1 3) False,
                Acquire sem_at_less_than_collection_version, PrintMerging 2 ''S'' 0 20,
                Release sem_at_less_than_collection_version],
      cluster_after = ()\<rparr>"
  by (simp add: init_two_shards) (simp add: run_defs input_defs)

section \<open>The claims\<close>

text \<open>
  C1. The claim: the shard's merge count is incremented exactly when a merge commit
  succeeds, and after a merge that fails with LockBusy (code 46) the count is unchanged
  and the worker goes on with the next candidate. The script goes on with the next
  candidate, but it reaches line 248 after the handler of lines 231 to 237 as well: on
  four chunks in a row, with every \<open>mergeChunks\<close> answered by LockBusy, the worker ends
  with a count of 2 although no merge has succeeded, and it has run the second merge as
  one on a shard at the collection version.
\<close>

theorem lock_busy_merge_is_counted:
  "collectionVersion (main_initialisation four_in_a_row) = Some (Timestamp 2 0)
   \<and> merge_chunks_on_shard (commit_env 60 128 134217728 (Some (OperationFailure 46)))
        (shard_to_chunks (main_initialisation four_in_a_row)) ''S'' (Timestamp 2 0) ()
       = \<lparr>raised = None, num_merges_after = 2,
          events = [PrintStart ''S'' (Timestamp 1 3) False,
                    DataSize 0 20, Acquire sem_at_less_than_collection_version,
                    MergeChunks 0 20, PrintWarning 0 20,
                    Release sem_at_less_than_collection_version,
                    DataSize 20 40, Acquire sem_at_collection_version, MergeChunks 20 40,
                    Release sem_at_collection_version],
          cluster_after = ()\<rparr>"
  by (simp add: init_four) (simp add: run_defs input_defs)

text \<open>
  C2. The scenario of the specification: one shard with the chunks \<open>[0,10)\<close>, \<open>[10,20)\<close>,
  \<open>[20,30)\<close>, an estimate of 25 per chunk, a target of 64, in a dry run. The first two
  chunks are accumulated without an evaluation (estimate 50), the candidate of all three
  is measured at the simulated size 75, and the worker prints exactly one merge, over
  \<open>[0,30)\<close>, whatever the cluster would have answered.
\<close>

theorem scenario_plan_one_merge:
  "shard_to_chunks (main_initialisation scenario_chunks)
     = [(''S'', \<lparr>chunks = scenario_chunks, num_merges_performed = 0\<rparr>)]
   \<and> collectionVersion (main_initialisation scenario_chunks) = Some (Timestamp 1 1)
   \<and> for_loop
        \<lparr>args = \<lparr>ns = n, dryrun = True, phase_1_estimated_chunk_size_mb = 25\<rparr>,
         target_chunk_size = 64, dataSize = ds, mergeChunks = mc,
         py_add = (\<lambda>a b. a + b), py_mul = (\<lambda>a b. a * b), py_float = pf\<rparr> ''S''
        (worker_start ''S'' \<lparr>chunks = scenario_chunks, num_merges_performed = 0\<rparr>
           (Timestamp 1 1) s0)
        (take 2 scenario_chunks)
       = (None,
          (worker_start ''S'' \<lparr>chunks = scenario_chunks, num_merges_performed = 0\<rparr>
             (Timestamp 1 1) s0)
            \<lparr>consecutive_chunks := take 2 scenario_chunks,
             estimated_size_of_consecutive_chunks := 50\<rparr>)
   \<and> fst (actual_size_of_consecutive_chunks
        \<lparr>args = \<lparr>ns = n, dryrun = True, phase_1_estimated_chunk_size_mb = 25\<rparr>,
         target_chunk_size = 64, dataSize = ds, mergeChunks = mc,
         py_add = (\<lambda>a b. a + b), py_mul = (\<lambda>a b. a * b), py_float = pf\<rparr>
        ((worker_start ''S'' \<lparr>chunks = scenario_chunks, num_merges_performed = 0\<rparr>
            (Timestamp 1 1) s0)
           \<lparr>consecutive_chunks := scenario_chunks,
            estimated_size_of_consecutive_chunks := 25 + 25 + 25\<rparr>))
       = Inr 75
   \<and> merge_chunks_on_shard
        \<lparr>args = \<lparr>ns = n, dryrun = True, phase_1_estimated_chunk_size_mb = 25\<rparr>,
         target_chunk_size = 64, dataSize = ds, mergeChunks = mc,
         py_add = (\<lambda>a b. a + b), py_mul = (\<lambda>a b. a * b), py_float = pf\<rparr>
        (shard_to_chunks (main_initialisation scenario_chunks)) ''S'' (Timestamp 1 1) s0
       = \<lparr>raised = None, num_merges_after = 1,
          events = [PrintStart ''S'' (Timestamp 1 1) True, Acquire sem_at_collection_version,
                    PrintMerging 3 ''S'' 0 30, Release sem_at_collection_version],
          cluster_after = s0\<rparr>"
  by (simp add: init_scenario) (simp add: run_defs input_defs)

text \<open>
  C3. A candidate that is evaluated without being forced: the new chunk is contiguous and
  the estimate has passed the 90 percent test of the script. With the measured size
  \<open>actual\<close> and the products as Python computes them: below 75 percent of the target
  nothing is merged, the candidate keeps the new chunk and its estimate becomes
  \<open>actual\<close>; otherwise the run is committed, in particular at exactly 75 percent, and at
  110 percent and above. For the last, 110 percent of the target must not be less than
  75 percent of it, as is the case for every target that is not negative.
\<close>

theorem size_thresholds:
  assumes ne: "consecutive_chunks st \<noteq> []"
    and link: "chunk_max (last (consecutive_chunks st)) = chunk_min c"
    and over: "\<not> py_add E (estimated_size_of_consecutive_chunks st)
                   (phase_1_estimated_chunk_size_mb (args E))
                 \<le> py_mul E (target_chunk_size E) 0.90"
    and a: "actual_size_of_consecutive_chunks E
              (st\<lparr>consecutive_chunks := consecutive_chunks st @ [c],
                  estimated_size_of_consecutive_chunks :=
                    py_add E (estimated_size_of_consecutive_chunks st)
                      (phase_1_estimated_chunk_size_mb (args E))\<rparr>) = (Inr actual, st1)"
  shows "(actual < py_mul E (target_chunk_size E) 0.75 \<longrightarrow>
            loop_body E shard st c
              = (None, st1\<lparr>estimated_size_of_consecutive_chunks := actual\<rparr>)
          \<and> consecutive_chunks st1 = consecutive_chunks st @ [c]
          \<and> step_events E shard st c
              = (if dryrun (args E) then []
                 else [DataSize (chunk_min (hd (consecutive_chunks st))) (chunk_max c)])
          \<and> merges_issued (step_events E shard st c) = [])
       \<and> (\<not> actual < py_mul E (target_chunk_size E) 0.75 \<longrightarrow>
            commits E shard st c (consecutive_chunks st @ [c])
          \<and> merges_issued (step_events E shard st c)
              = [(chunk_min (hd (consecutive_chunks st)), chunk_max c)]
          \<and> (fst (loop_body E shard st c) = None \<longrightarrow>
                consecutive_chunks (snd (loop_body E shard st c)) = []
              \<and> estimated_size_of_consecutive_chunks (snd (loop_body E shard st c)) = 0))
       \<and> (actual = py_mul E (target_chunk_size E) 0.75 \<longrightarrow>
            commits E shard st c (consecutive_chunks st @ [c]))
       \<and> (py_mul E (target_chunk_size E) 0.75 \<le> py_mul E (target_chunk_size E) 1.10 \<longrightarrow>
            py_mul E (target_chunk_size E) 1.10 \<le> actual \<longrightarrow>
            commits E shard st c (consecutive_chunks st @ [c]))"
proof -
  define st0 where "st0 = st\<lparr>consecutive_chunks := consecutive_chunks st @ [c],
      estimated_size_of_consecutive_chunks :=
        py_add E (estimated_size_of_consecutive_chunks st)
          (phase_1_estimated_chunk_size_mb (args E))\<rparr>"
  from ne link over have lb: "loop_body E shard st c = evaluate_candidate E shard False c st0"
    by (simp add: loop_body_def st0_def Let_def)
  from a have a0: "actual_size_of_consecutive_chunks E st0 = (Inr actual, st1)"
    by (simp add: st0_def)
  note fr = actual_size_frame [OF a0]
  have bounds: "chunk_min (hd (consecutive_chunks st0)) = chunk_min (hd (consecutive_chunks st))"
    "chunk_max (last (consecutive_chunks st0)) = chunk_max c"
    using ne by (simp_all add: st0_def)
  have low: "loop_body E shard st c = (None, st1\<lparr>estimated_size_of_consecutive_chunks := actual\<rparr>)
      \<and> consecutive_chunks st1 = consecutive_chunks st @ [c]
      \<and> step_events E shard st c
          = (if dryrun (args E) then []
             else [DataSize (chunk_min (hd (consecutive_chunks st))) (chunk_max c)])
      \<and> merges_issued (step_events E shard st c) = []"
    if "actual < py_mul E (target_chunk_size E) 0.75"
  proof -
    from evaluate_candidate_underfilled [OF a0 that] lb
    have eq: "loop_body E shard st c
                = (None, st1\<lparr>estimated_size_of_consecutive_chunks := actual\<rparr>)"
      by simp
    from fr bounds have tr: "drop (length (trace st)) (trace st1)
        = (if dryrun (args E) then []
           else [DataSize (chunk_min (hd (consecutive_chunks st))) (chunk_max c)])"
      by (auto simp: st0_def split: if_splits)
    from fr have cc: "consecutive_chunks st1 = consecutive_chunks st @ [c]"
      by (simp add: st0_def)
    from eq tr have se: "step_events E shard st c
        = (if dryrun (args E) then []
           else [DataSize (chunk_min (hd (consecutive_chunks st))) (chunk_max c)])"
      by (simp add: step_events_def)
    then have "merges_issued (step_events E shard st c) = []" by simp
    with eq cc se show ?thesis by simp
  qed
  have high: "commits E shard st c (consecutive_chunks st @ [c])
      \<and> merges_issued (step_events E shard st c)
          = [(chunk_min (hd (consecutive_chunks st)), chunk_max c)]
      \<and> (fst (loop_body E shard st c) = None \<longrightarrow>
            consecutive_chunks (snd (loop_body E shard st c)) = []
          \<and> estimated_size_of_consecutive_chunks (snd (loop_body E shard st c)) = 0)"
    if "\<not> actual < py_mul E (target_chunk_size E) 0.75"
  proof -
    obtain r st' where ev: "evaluate_candidate E shard False c st0 = (r, st')"
      by (cases "evaluate_candidate E shard False c st0")
    from that have d: "False \<or> \<not> actual < py_mul E (target_chunk_size E) 0.75" by simp
    from evaluate_candidate_commit [OF a0 d ev]
    have m0: "merged E shard (consecutive_chunks st0) st0 st'"
      and fin: "r = None \<longrightarrow> consecutive_chunks st' = []
                  \<and> estimated_size_of_consecutive_chunks st' = 0"
      by simp_all
    have "merged E shard (consecutive_chunks st0) st0 st'
            = merged E shard (consecutive_chunks st @ [c]) st st'"
      by (simp add: merged_def st0_def)
    with m0 have m: "merged E shard (consecutive_chunks st @ [c]) st st'"
      by simp
    have cl: "cluster_state st'
        = snd (mergeChunks E
                 (snd (dataSize E (cluster_state st)
                         (chunk_min (hd (consecutive_chunks st @ [c])))
                         (chunk_max (last (consecutive_chunks st @ [c])))))
                 (chunk_min (hd (consecutive_chunks st @ [c])))
                 (chunk_max (last (consecutive_chunks st @ [c]))))"
      if "\<not> dryrun (args E)"
      using evaluate_candidate_commit_cluster [OF a0 d ev that] by (simp add: st0_def)
    from lb ev have sn: "snd (loop_body E shard st c) = st'" by simp
    from merged_commits [OF sn m cl]
    have co: "commits E shard st c (consecutive_chunks st @ [c])" .
    from merged_merges [OF m] sn ne
    have "merges_issued (step_events E shard st c)
            = [(chunk_min (hd (consecutive_chunks st)), chunk_max c)]"
      using m by (auto simp: step_events_def merged_def Let_def split: if_splits)
    with co lb ev fin show ?thesis by simp
  qed
  from low high show ?thesis by auto
qed

theorem size_thresholds_witness:
  "loop_body (commit_env 80 160 1048576 None) ''S''
       (state_with [chunk_of 0 10 ''S'' (Timestamp 1 0)] 80) (chunk_of 10 20 ''S'' (Timestamp 1 1))
     = (None, (state_with [chunk_of 0 10 ''S'' (Timestamp 1 0),
                           chunk_of 10 20 ''S'' (Timestamp 1 1)] 1)\<lparr>trace := [DataSize 0 20]\<rparr>)
   \<and> (120::real) = py_mul (commit_env 80 160 125829120 None) 160 0.75
   \<and> commits (commit_env 80 160 125829120 None) ''S''
       (state_with [chunk_of 0 10 ''S'' (Timestamp 1 0)] 80) (chunk_of 10 20 ''S'' (Timestamp 1 1))
       [chunk_of 0 10 ''S'' (Timestamp 1 0), chunk_of 10 20 ''S'' (Timestamp 1 1)]
   \<and> step_events (commit_env 80 160 125829120 None) ''S''
       (state_with [chunk_of 0 10 ''S'' (Timestamp 1 0)] 80) (chunk_of 10 20 ''S'' (Timestamp 1 1))
     = [DataSize 0 20, Acquire sem_at_less_than_collection_version, MergeChunks 0 20,
        Release sem_at_less_than_collection_version]
   \<and> (176::real) = py_mul (commit_env 80 160 184549376 None) 160 1.10
   \<and> commits (commit_env 80 160 184549376 None) ''S''
       (state_with [chunk_of 0 10 ''S'' (Timestamp 1 0)] 80) (chunk_of 10 20 ''S'' (Timestamp 1 1))
       [chunk_of 0 10 ''S'' (Timestamp 1 0), chunk_of 10 20 ''S'' (Timestamp 1 1)]
   \<and> step_events (commit_env 80 160 184549376 None) ''S''
       (state_with [chunk_of 0 10 ''S'' (Timestamp 1 0)] 80) (chunk_of 10 20 ''S'' (Timestamp 1 1))
     = [DataSize 0 20, Acquire sem_at_less_than_collection_version, MergeChunks 0 20,
        Release sem_at_less_than_collection_version]"
proof -
  let ?a = "chunk_of 0 10 ''S'' (Timestamp 1 0)"
  let ?b = "chunk_of 10 20 ''S'' (Timestamp 1 1)"
  let ?st = "state_with [?a] 80"
  have ne: "consecutive_chunks ?st \<noteq> []"
    and link: "chunk_max (last (consecutive_chunks ?st)) = chunk_min ?b"
    by (simp_all add: state_with_def chunk_of_def)
  have over: "\<not> py_add (commit_env 80 160 (k * 1048576) None)
                   (estimated_size_of_consecutive_chunks ?st)
                   (phase_1_estimated_chunk_size_mb (args (commit_env 80 160 (k * 1048576) None)))
                 \<le> py_mul (commit_env 80 160 (k * 1048576) None)
                      (target_chunk_size (commit_env 80 160 (k * 1048576) None)) 0.90" for k
    by (simp add: commit_env_def state_with_def)
  have sz: "actual_size_of_consecutive_chunks (commit_env 80 160 (k * 1048576) None)
              (?st\<lparr>consecutive_chunks := consecutive_chunks ?st @ [?b],
                 estimated_size_of_consecutive_chunks :=
                   py_add (commit_env 80 160 (k * 1048576) None)
                     (estimated_size_of_consecutive_chunks ?st)
                     (phase_1_estimated_chunk_size_mb
                        (args (commit_env 80 160 (k * 1048576) None)))\<rparr>)
            = (Inr (of_int \<lceil>k\<rceil>), (state_with [?a, ?b] 160)\<lparr>trace := [DataSize 0 20]\<rparr>)" for k
    by (simp add: actual_size_of_consecutive_chunks_def commit_env_def state_with_def
        chunk_of_def mergeCommand_bounds_def)
  have low: "loop_body (commit_env 80 160 1048576 None) ''S'' ?st ?b
      = (None, (state_with [?a, ?b] 1)\<lparr>trace := [DataSize 0 20]\<rparr>)"
    using size_thresholds [OF ne link over [of 1], of 1 _ "''S''"] sz [of 1]
    by (simp add: commit_env_def state_with_def)
  have at75: "commits (commit_env 80 160 125829120 None) ''S'' ?st ?b [?a, ?b]"
    using size_thresholds [OF ne link over [of 120], of 120 _ "''S''"] sz [of 120]
    by (simp add: commit_env_def state_with_def)
  have at110: "commits (commit_env 80 160 184549376 None) ''S'' ?st ?b [?a, ?b]"
    using size_thresholds [OF ne link over [of 176], of 176 _ "''S''"] sz [of 176]
    by (simp add: commit_env_def state_with_def)
  have ev75: "step_events (commit_env 80 160 125829120 None) ''S'' ?st ?b
      = [DataSize 0 20, Acquire sem_at_less_than_collection_version, MergeChunks 0 20,
         Release sem_at_less_than_collection_version]"
    by (simp add: step_events_def run_defs input_defs)
  have ev110: "step_events (commit_env 80 160 184549376 None) ''S'' ?st ?b
      = [DataSize 0 20, Acquire sem_at_less_than_collection_version, MergeChunks 0 20,
         Release sem_at_less_than_collection_version]"
    by (simp add: step_events_def run_defs input_defs)
  have "(120::real) = py_mul (commit_env 80 160 125829120 None) 160 0.75"
    "(176::real) = py_mul (commit_env 80 160 184549376 None) 160 1.10"
    by (simp_all add: commit_env_def)
  with low at75 at110 ev75 ev110 show ?thesis by simp
qed

text \<open>
  C4. A chunk \<open>c\<close> that does not begin where the candidate ends. A candidate of one chunk
  is dropped and \<open>[c]\<close> takes its place with the estimate of one chunk. A candidate of two
  or more chunks is committed whatever size is measured for it, over bounds that end
  with its own last chunk, and \<open>[c]\<close> is the next candidate. The size is still asked for
  first, so this needs the call to return.
\<close>

theorem non_contiguous_chunk:
  assumes ne: "consecutive_chunks st \<noteq> []"
    and gap: "chunk_max (last (consecutive_chunks st)) \<noteq> chunk_min c"
  shows "(length (consecutive_chunks st) = 1 \<longrightarrow>
            loop_body E shard st c
              = (None, st\<lparr>consecutive_chunks := [c],
                         estimated_size_of_consecutive_chunks :=
                           phase_1_estimated_chunk_size_mb (args E)\<rparr>))
       \<and> (2 \<le> length (consecutive_chunks st) \<longrightarrow>
            (\<forall>actual st1.
               actual_size_of_consecutive_chunks E st = (Inr actual, st1) \<longrightarrow>
                 commits E shard st c (consecutive_chunks st)
               \<and> merges_issued (step_events E shard st c)
                   = [(chunk_min (hd (consecutive_chunks st)),
                       chunk_max (last (consecutive_chunks st)))]
               \<and> (fst (loop_body E shard st c) = None \<longrightarrow>
                    consecutive_chunks (snd (loop_body E shard st c)) = [c]
                  \<and> estimated_size_of_consecutive_chunks (snd (loop_body E shard st c))
                      = phase_1_estimated_chunk_size_mb (args E))))"
proof (intro conjI impI allI)
  assume "length (consecutive_chunks st) = 1"
  with ne gap show "loop_body E shard st c
      = (None, st\<lparr>consecutive_chunks := [c],
                 estimated_size_of_consecutive_chunks :=
                   phase_1_estimated_chunk_size_mb (args E)\<rparr>)"
    by (simp add: loop_body_def)
next
  fix actual st1
  assume len: "2 \<le> length (consecutive_chunks st)"
    and a: "actual_size_of_consecutive_chunks E st = (Inr actual, st1)"
  from ne gap len have lb: "loop_body E shard st c = evaluate_candidate E shard True c st"
    by (simp add: loop_body_def)
  obtain r st' where ev: "evaluate_candidate E shard True c st = (r, st')"
    by (cases "evaluate_candidate E shard True c st")
  have d: "True \<or> \<not> actual < py_mul E (target_chunk_size E) 0.75" by simp
  from evaluate_candidate_commit [OF a d ev] have
    m: "merged E shard (consecutive_chunks st) st st'"
    and fin: "r = None \<longrightarrow> consecutive_chunks st' = [c]
         \<and> estimated_size_of_consecutive_chunks st' = phase_1_estimated_chunk_size_mb (args E)"
    by simp_all
  from lb ev have sn: "snd (loop_body E shard st c) = st'" by simp
  from merged_commits [OF sn m evaluate_candidate_commit_cluster [OF a d ev]]
  show "commits E shard st c (consecutive_chunks st)" .
  from merged_step_merges [OF m] lb ev
  show "merges_issued (step_events E shard st c)
          = [(chunk_min (hd (consecutive_chunks st)), chunk_max (last (consecutive_chunks st)))]"
    by (simp add: step_events_def)
  {
    assume "fst (loop_body E shard st c) = None"
    with lb ev fin
    show "consecutive_chunks (snd (loop_body E shard st c)) = [c]"
      and "estimated_size_of_consecutive_chunks (snd (loop_body E shard st c))
             = phase_1_estimated_chunk_size_mb (args E)"
      by simp_all
  }
qed

theorem non_contiguous_chunk_witness:
  "loop_body (plan_env 25 64) ''S'' (state_with [chunk_of 0 10 ''S'' (Timestamp 1 0)] 25)
       (chunk_of 30 40 ''S'' (Timestamp 1 2))
     = (None, state_with [chunk_of 30 40 ''S'' (Timestamp 1 2)] 25)
   \<and> commits (commit_env 60 128 1048576 None) ''S''
        (state_with [chunk_of 0 10 ''S'' (Timestamp 1 0), chunk_of 10 20 ''S'' (Timestamp 1 1)] 120)
        (chunk_of 30 40 ''S'' (Timestamp 1 2))
        [chunk_of 0 10 ''S'' (Timestamp 1 0), chunk_of 10 20 ''S'' (Timestamp 1 1)]
   \<and> step_events (commit_env 60 128 1048576 None) ''S''
        (state_with [chunk_of 0 10 ''S'' (Timestamp 1 0), chunk_of 10 20 ''S'' (Timestamp 1 1)] 120)
        (chunk_of 30 40 ''S'' (Timestamp 1 2))
     = [DataSize 0 20, Acquire sem_at_less_than_collection_version, MergeChunks 0 20,
        Release sem_at_less_than_collection_version]
   \<and> merges_issued (step_events (commit_env 60 128 1048576 None) ''S''
        (state_with [chunk_of 0 10 ''S'' (Timestamp 1 0), chunk_of 10 20 ''S'' (Timestamp 1 1)] 120)
        (chunk_of 30 40 ''S'' (Timestamp 1 2))) = [(0, 20)]
   \<and> consecutive_chunks (snd (loop_body (commit_env 60 128 1048576 None) ''S''
        (state_with [chunk_of 0 10 ''S'' (Timestamp 1 0), chunk_of 10 20 ''S'' (Timestamp 1 1)] 120)
        (chunk_of 30 40 ''S'' (Timestamp 1 2)))) = [chunk_of 30 40 ''S'' (Timestamp 1 2)]
   \<and> commits (plan_env 25 64) ''S''
        (state_with [chunk_of 0 10 ''S'' (Timestamp 1 0), chunk_of 10 20 ''S'' (Timestamp 1 1)] 50)
        (chunk_of 30 40 ''S'' (Timestamp 1 2))
        [chunk_of 0 10 ''S'' (Timestamp 1 0), chunk_of 10 20 ''S'' (Timestamp 1 1)]"
proof -
  let ?a = "chunk_of 0 10 ''S'' (Timestamp 1 0)"
  let ?b = "chunk_of 10 20 ''S'' (Timestamp 1 1)"
  let ?c = "chunk_of 30 40 ''S'' (Timestamp 1 2)"
  have h1: "consecutive_chunks (state_with [?a] 25) \<noteq> []"
    "chunk_max (last (consecutive_chunks (state_with [?a] 25))) \<noteq> chunk_min ?c"
    by (simp_all add: state_with_def chunk_of_def)
  have h2: "consecutive_chunks (state_with [?a, ?b] e) \<noteq> []"
    "chunk_max (last (consecutive_chunks (state_with [?a, ?b] e))) \<noteq> chunk_min ?c" for e
    by (simp_all add: state_with_def chunk_of_def)
  have sz: "actual_size_of_consecutive_chunks (commit_env 60 128 1048576 None)
              (state_with [?a, ?b] 120)
      = (Inr 1, (state_with [?a, ?b] 120)\<lparr>trace := [DataSize 0 20]\<rparr>)"
    by (simp add: actual_size_of_consecutive_chunks_def commit_env_def state_with_def
        chunk_of_def mergeCommand_bounds_def)
  have szp: "actual_size_of_consecutive_chunks (plan_env 25 64) (state_with [?a, ?b] 50)
      = (Inr 50, state_with [?a, ?b] 50)"
    by (simp add: actual_size_of_consecutive_chunks_def plan_env_def state_with_def)
  have ok: "fst (loop_body (commit_env 60 128 1048576 None) ''S'' (state_with [?a, ?b] 120) ?c) = None"
    by (simp add: run_defs input_defs)
  have ev: "step_events (commit_env 60 128 1048576 None) ''S'' (state_with [?a, ?b] 120) ?c
      = [DataSize 0 20, Acquire sem_at_less_than_collection_version, MergeChunks 0 20,
         Release sem_at_less_than_collection_version]"
    by (simp add: step_events_def run_defs input_defs)
  from non_contiguous_chunk [OF h1, of "plan_env 25 64" "''S''"]
  have one: "loop_body (plan_env 25 64) ''S'' (state_with [?a] 25) ?c
      = (None, state_with [?c] 25)"
    by (simp add: state_with_def plan_env_def)
  from non_contiguous_chunk [OF h2, of 120 "commit_env 60 128 1048576 None" "''S''"] sz ok
  have two: "commits (commit_env 60 128 1048576 None) ''S'' (state_with [?a, ?b] 120) ?c [?a, ?b]
      \<and> merges_issued (step_events (commit_env 60 128 1048576 None) ''S''
           (state_with [?a, ?b] 120) ?c) = [(0, 20)]
      \<and> consecutive_chunks (snd (loop_body (commit_env 60 128 1048576 None) ''S''
           (state_with [?a, ?b] 120) ?c)) = [?c]"
    by (simp add: state_with_def chunk_of_def)
  from non_contiguous_chunk [OF h2, of 50 "plan_env 25 64" "''S''"] szp
  have three: "commits (plan_env 25 64) ''S'' (state_with [?a, ?b] 50) ?c [?a, ?b]"
    by (simp add: state_with_def)
  from one two three ev show ?thesis by simp
qed

text \<open>
  C5. The semaphore of the shards below the collection version (one permit) is taken at
  most once by a worker, and only for its first merge: every merge after the first runs
  under the semaphore of the shards at the collection version (eight permits). This
  holds for every run of a worker, also one that an exception ends.
\<close>

theorem version_bump_gate_at_most_once:
  "length (filter (\<lambda>g. g = sem_at_less_than_collection_version)
             (acquired (events (merge_chunks_on_shard E m shard cv s0)))) \<le> 1
   \<and> (\<forall>g\<in>set (tl (acquired (events (merge_chunks_on_shard E m shard cv s0)))).
         g = sem_at_collection_version)
   \<and> permits sem_at_less_than_collection_version = 1
   \<and> permits sem_at_collection_version = 8"
proof -
  have "set (tl (acquired (events (merge_chunks_on_shard E m shard cv s0))))
          \<subseteq> {sem_at_collection_version}"
  proof (cases rule: worker_cases [of E m shard cv s0])
    case idle
    then show ?thesis by simp
  next
    case (loop e r st)
    from for_loop_gates [OF loop(3)] loop(4) show ?thesis
      by (auto simp: worker_start_simps)
  qed
  with tl_all_bounds_filter [OF this] show ?thesis
    by (auto simp: max_merges_on_shards_at_less_than_collection_version_def
        max_merges_on_shards_at_collection_version_def)
qed

theorem version_bump_gate_at_most_once_witness:
  "acquired (events (merge_chunks_on_shard (commit_env 60 128 134217728 None)
       (shard_to_chunks (main_initialisation four_in_a_row)) ''S'' (Timestamp 2 0) ()))
     = [sem_at_less_than_collection_version, sem_at_collection_version]
   \<and> length (filter (\<lambda>g. g = sem_at_less_than_collection_version)
        (acquired (events (merge_chunks_on_shard (commit_env 60 128 134217728 None)
           (shard_to_chunks (main_initialisation four_in_a_row)) ''S'' (Timestamp 2 0) ())))) \<le> 1
   \<and> set (tl (acquired (events (merge_chunks_on_shard (commit_env 60 128 134217728 None)
           (shard_to_chunks (main_initialisation four_in_a_row)) ''S'' (Timestamp 2 0) ()))))
       \<subseteq> {sem_at_collection_version}"
  using version_bump_gate_at_most_once [of "commit_env 60 128 134217728 None"
      "shard_to_chunks (main_initialisation four_in_a_row)" "''S''" "Timestamp 2 0" "()"]
  by (simp add: run_four_commit subset_iff)

text \<open>
  C6. Every merge a worker issues, sent or printed, is over the bounds of a run of at
  least two chunks of its own shard's list, lying there without a gap, each ending where
  the next begins, and all of them owned by that one shard.
\<close>

theorem issued_merges_contiguous_one_shard:
  assumes e: "map_of (shard_to_chunks (main_initialisation cs)) shard = Some e"
    and b: "(lo, hi) \<in> set (merges_issued (events
              (merge_chunks_on_shard E (shard_to_chunks (main_initialisation cs)) shard cv s0)))"
  shows "\<exists>p run q. chunks e = p @ run @ q \<and> 2 \<le> length run \<and> contiguous run
           \<and> (\<forall>c\<in>set run. chunk_shard c = shard)
           \<and> lo = chunk_min (hd run) \<and> hi = chunk_max (last run)"
proof (cases rule: worker_cases [of E "shard_to_chunks (main_initialisation cs)" shard cv s0])
  case idle
  with b show ?thesis by simp
next
  case (loop e' r st)
  with e have fl: "for_loop E shard (worker_start shard e cv s0) (chunks e) = (r, st)"
    by simp
  have "contiguous (consecutive_chunks (worker_start shard e cv s0))"
    by (simp add: worker_start_simps)
  from for_loop_merges [OF this fl, of "[]"] b loop(4)
  have "covered (chunks e) (lo, hi)"
    by (auto simp: worker_start_simps)
  then obtain p run q where run: "chunks e = p @ run @ q" "2 \<le> length run" "contiguous run"
    "lo = chunk_min (hd run)" "hi = chunk_max (last run)"
    by (auto simp: covered_def)
  from e have "(shard, e) \<in> set (shard_to_chunks (main_initialisation cs))"
    by (rule map_of_SomeD)
  with main_initialisation_owned [of cs] have "\<forall>c\<in>set (chunks e). chunk_shard c = shard"
    by (auto simp: owned_def)
  with run(1) have "\<forall>c\<in>set run. chunk_shard c = shard" by simp
  with run show ?thesis by blast
qed

theorem issued_merges_contiguous_one_shard_witness:
  "map_of (shard_to_chunks (main_initialisation two_shard_chunks)) ''S''
     = Some \<lparr>chunks = [chunk_of 0 10 ''S'' (Timestamp 1 0), chunk_of 10 20 ''S'' (Timestamp 1 1),
                       chunk_of 30 40 ''S'' (Timestamp 1 2), chunk_of 40 50 ''S'' (Timestamp 1 3)],
             num_merges_performed = 0\<rparr>
   \<and> (0, 20) \<in> set (merges_issued (events (merge_chunks_on_shard (plan_env 25 64)
         (shard_to_chunks (main_initialisation two_shard_chunks)) ''S'' (Timestamp 2 0) ())))
   \<and> (\<exists>p run q.
         [chunk_of 0 10 ''S'' (Timestamp 1 0), chunk_of 10 20 ''S'' (Timestamp 1 1),
          chunk_of 30 40 ''S'' (Timestamp 1 2), chunk_of 40 50 ''S'' (Timestamp 1 3)] = p @ run @ q
       \<and> 2 \<le> length run \<and> contiguous run \<and> set (map chunk_shard run) \<subseteq> {''S''}
       \<and> (0::int) = chunk_min (hd run) \<and> (20::int) = chunk_max (last run))"
proof -
  let ?e = "\<lparr>chunks = [chunk_of 0 10 ''S'' (Timestamp 1 0), chunk_of 10 20 ''S'' (Timestamp 1 1),
                       chunk_of 30 40 ''S'' (Timestamp 1 2), chunk_of 40 50 ''S'' (Timestamp 1 3)],
             num_merges_performed = 0\<rparr>"
  have h1: "map_of (shard_to_chunks (main_initialisation two_shard_chunks)) ''S'' = Some ?e"
    by (simp add: init_two_shards)
  have h2: "(0, 20) \<in> set (merges_issued (events (merge_chunks_on_shard (plan_env 25 64)
         (shard_to_chunks (main_initialisation two_shard_chunks)) ''S'' (Timestamp 2 0) ())))"
    by (simp add: run_two_shards_plan)
  from issued_merges_contiguous_one_shard [OF h1 h2]
  obtain p run q where
    "chunks ?e = p @ run @ q \<and> 2 \<le> length run \<and> contiguous run
       \<and> (\<forall>c\<in>set run. chunk_shard c = ''S'')
       \<and> (0::int) = chunk_min (hd run) \<and> (20::int) = chunk_max (last run)"
    by blast
  then have "chunks ?e = p @ run @ q \<and> 2 \<le> length run \<and> contiguous run
       \<and> set (map chunk_shard run) \<subseteq> {''S''}
       \<and> (0::int) = chunk_min (hd run) \<and> (20::int) = chunk_max (last run)"
    by auto
  then have "\<exists>p run q. chunks ?e = p @ run @ q \<and> 2 \<le> length run \<and> contiguous run
       \<and> set (map chunk_shard run) \<subseteq> {''S''}
       \<and> (0::int) = chunk_min (hd run) \<and> (20::int) = chunk_max (last run)"
    by blast
  with h1 h2 show ?thesis by simp
qed

text \<open>
  C7. In a dry run a worker sends no command at all to the cluster, neither \<open>dataSize\<close>
  nor \<open>mergeChunks\<close>, however many candidates it finds; the cluster is left as it was, and
  the size of a candidate is its estimate, unchanged. The merges of a dry run are
  therefore the printed ones only.
\<close>

theorem plan_mode_sends_no_command:
  assumes "dryrun (args E)"
  shows "filter is_command (events (merge_chunks_on_shard E m shard cv s0)) = []
       \<and> cluster_after (merge_chunks_on_shard E m shard cv s0) = s0
       \<and> actual_size_of_consecutive_chunks E st
           = (Inr (estimated_size_of_consecutive_chunks st), st)"
proof -
  have "filter is_command (events (merge_chunks_on_shard E m shard cv s0)) = []
      \<and> cluster_after (merge_chunks_on_shard E m shard cv s0) = s0"
  proof (cases rule: worker_cases [of E m shard cv s0])
    case idle
    then show ?thesis by simp
  next
    case (loop e r st')
    from for_loop_dry [OF assms loop(3)] loop(4,5) show ?thesis
      by (simp add: worker_start_simps)
  qed
  with assms show ?thesis by (simp add: actual_size_of_consecutive_chunks_def)
qed

theorem plan_mode_sends_no_command_witness:
  "dryrun (args (plan_env 25 64))
   \<and> merges_issued (events (merge_chunks_on_shard (plan_env 25 64)
        (shard_to_chunks (main_initialisation two_shard_chunks)) ''S'' (Timestamp 2 0) ()))
       = [(0, 20)]
   \<and> filter is_command (events (merge_chunks_on_shard (plan_env 25 64)
        (shard_to_chunks (main_initialisation two_shard_chunks)) ''S'' (Timestamp 2 0) ())) = []
   \<and> actual_size_of_consecutive_chunks (plan_env 25 64) (state_with scenario_chunks 75)
       = (Inr 75, state_with scenario_chunks 75)"
proof -
  have h: "dryrun (args (plan_env 25 64))" by (simp add: plan_env_def)
  from plan_mode_sends_no_command [OF h, of "shard_to_chunks (main_initialisation two_shard_chunks)"
      "''S''" "Timestamp 2 0" "()" "state_with scenario_chunks 75"] h
  show ?thesis by (simp add: run_two_shards_plan state_with_def)
qed

text \<open>
  C8. The claim: for a namespace that is not registered as sharded the program fails at
  load time with a defined error of its own, before any mutation. The script fails
  there, and before any other read or any mutation, but with the \<open>TypeError\<close> of
  subscripting \<open>None\<close> on line 23: it never tests the reply of \<open>find_one\<close>. The sibling
  tool makes the same lookup and raises its own exception
  \<open>Collection ... is NOT sharded\<close>.
\<close>

theorem unsharded_namespace_type_error:
  "main_read_only (a\<lparr>ns := ''db.coll''\<rparr>) (cluster\<lparr>collections_find_one := (\<lambda>n. None)\<rparr>)
     = (Inl TypeError, [FindOneCollections ''db.coll''])
   \<and> unshard_main_lookup ''db.coll''
       (cluster\<lparr>collections_find_one := (\<lambda>n. None), is_mongos := True\<rparr>)
     = Inl (Exception ''Collection db.coll is NOT sharded'')"
  by (simp add: main_read_only_def main_sanity_checks_def unshard_main_lookup_def)

text \<open>
  C9. A shard with fewer than two chunks: its worker returns at once. It sends no
  command, takes no semaphore, prints nothing, and the merge count of the shard stays at
  the zero the initialisation gave it.
\<close>

theorem short_shard_returns_immediately:
  assumes e: "map_of (shard_to_chunks (main_initialisation cs)) shard = Some e"
    and short: "length (chunks e) < 2"
  shows "merge_chunks_on_shard E (shard_to_chunks (main_initialisation cs)) shard cv s0
           = \<lparr>raised = None, num_merges_after = 0, events = [], cluster_after = s0\<rparr>"
proof -
  from e have "(shard, e) \<in> set (shard_to_chunks (main_initialisation cs))"
    by (rule map_of_SomeD)
  with main_initialisation_owned [of cs] have "num_merges_performed e = 0"
    by (auto simp: owned_def)
  with e short show ?thesis by (simp add: merge_chunks_on_shard_def)
qed

theorem short_shard_returns_immediately_witness:
  "map_of (shard_to_chunks (main_initialisation two_shard_chunks)) ''T''
     = Some \<lparr>chunks = [chunk_of 20 30 ''T'' (Timestamp 2 0)], num_merges_performed = 0\<rparr>
   \<and> length (chunks \<lparr>chunks = [chunk_of 20 30 ''T'' (Timestamp 2 0)],
                      num_merges_performed = 0\<rparr>) < 2
   \<and> merge_chunks_on_shard (commit_env 60 128 134217728 None)
        (shard_to_chunks (main_initialisation two_shard_chunks)) ''T'' (Timestamp 2 0) ()
       = \<lparr>raised = None, num_merges_after = 0, events = [], cluster_after = ()\<rparr>"
proof -
  let ?e = "\<lparr>chunks = [chunk_of 20 30 ''T'' (Timestamp 2 0)], num_merges_performed = 0\<rparr>"
  have h1: "map_of (shard_to_chunks (main_initialisation two_shard_chunks)) ''T'' = Some ?e"
    by (simp add: init_two_shards)
  have h2: "length (chunks ?e) < 2" by simp
  from short_shard_returns_immediately [OF h1 h2, of "commit_env 60 128 134217728 None"
      "Timestamp 2 0" "()"] h1 h2
  show ?thesis by simp
qed

text \<open>
  C10. A dry run skips the three tests of the balancer, the auto-splitter and the chunk
  size, but still reads the target chunk size from the \<open>chunksize\<close> settings document on
  line 63. Without that document the run ends in a Python error that is none of the
  script's own exceptions, before the chunks are read: the \<open>TypeError\<close> of line 63 once
  the namespace has a dot and its collection document exists, whatever the balancer and
  auto-splitter settings are.
\<close>

theorem plan_mode_missing_chunksize:
  assumes "dryrun a" and "settings_chunksize_value cluster = None"
  shows "(fst (main_read_only a cluster) = Inl TypeError
            \<or> fst (main_read_only a cluster) = Inl IndexError)
       \<and> FindChunks (ns a) \<notin> set (snd (main_read_only a cluster))
       \<and> (CHR ''.'' \<in> set (ns a) \<longrightarrow> collections_find_one cluster (ns a) \<noteq> None \<longrightarrow>
            main_read_only a cluster
              = (Inl TypeError,
                 [FindOneCollections (ns a), CountChunks (ns a), CheckIsMongos]
                 @ (if is_mongos cluster then [] else [PrintNotMongos])
                 @ [FindOneSettings ''balancer'', FindOneSettings ''autosplit'',
                    FindOneSettings ''chunksize'']))"
  using assms
  by (auto simp: main_read_only_def main_sanity_checks_def Let_def split: option.splits)

theorem plan_mode_missing_chunksize_witness:
  "dryrun \<lparr>ns = ''db.coll'', dryrun = True, phase_1_estimated_chunk_size_mb = 25\<rparr>
   \<and> settings_chunksize_value (sample_reads (Some ''{a: 1}'') None) = None
   \<and> settings_balancer_mode (sample_reads (Some ''{a: 1}'') None) = Some ''full''
   \<and> main_read_only \<lparr>ns = ''db.coll'', dryrun = True, phase_1_estimated_chunk_size_mb = 25\<rparr>
        (sample_reads (Some ''{a: 1}'') None)
       = (Inl TypeError,
          [FindOneCollections ''db.coll'', CountChunks ''db.coll'', CheckIsMongos,
           FindOneSettings ''balancer'', FindOneSettings ''autosplit'',
           FindOneSettings ''chunksize''])"
proof -
  let ?a = "\<lparr>ns = ''db.coll'', dryrun = True, phase_1_estimated_chunk_size_mb = 25\<rparr>"
  have h1: "dryrun ?a" by simp
  have h2: "settings_chunksize_value (sample_reads (Some ''{a: 1}'') None) = None"
    by (simp add: sample_reads_def)
  from plan_mode_missing_chunksize [OF h1 h2] h2 show ?thesis
    by (simp add: sample_reads_def)
qed

end
